theory Spec2Isabelle
  imports Complex_Main "HOL-Library.Multiset"
begin

section \<open>Values, tables and errors\<close>

text \<open>
  The harness \<^verbatim>\<open>evaluation_analysis.py\<close> works on pandas tables of numbers. A cell is a
  real number (Python floats are idealised as reals, and a boolean column is already
  its 0/1 integer coding), a row is a list of cells and a table a list of rows.
  Every exception of the Python code is a value of \<open>error\<close>.
\<close>

type_synonym row = "real list"
type_synonym table = "row list"

datatype error =
    DataShapeError
  | NotFittedError
  | InvalidKError
  | KeyError
  | IndexError
  | ValueError
  | ZeroDivisionError

section \<open>The nearest-neighbour classifier\<close>

text \<open>
  The harness imports the module \<^verbatim>\<open>classification\<close> and uses its class
  \<^verbatim>\<open>KNNClassifier\<close>; the module is not among the source files. The definitions of
  this section follow section 4.1 of the specification sentence by sentence.
\<close>

text \<open>Modelled from the spec: the TrainingSet of section 3 (module \<^verbatim>\<open>classification\<close>
  is missing): the stored feature rows and their index-aligned labels.\<close>

record 'l TrainingSet =
  features :: table
  labels :: "'l list"

text \<open>Modelled from the spec: the classifier instance of \<^verbatim>\<open>classification.KNNClassifier\<close>
  (missing). It is unfitted (\<open>None\<close>) until a successful \<open>fit\<close> and holds its training
  set afterwards.\<close>

type_synonym 'l KNNClassifier = "'l TrainingSet option"

definition KNNClassifier :: "'l KNNClassifier" where
  "KNNClassifier = None"

text \<open>Modelled from the spec: \<^verbatim>\<open>KNNClassifier.fit\<close> (missing). Row counts must match,
  otherwise DataShapeError; on success the rows and labels are stored verbatim. A failed
  call raises, so the caller's instance stays as it was.\<close>

definition fit :: "'l KNNClassifier \<Rightarrow> table \<Rightarrow> 'l list \<Rightarrow> error + 'l KNNClassifier" where
  "fit knn features_table labels_seq =
     (if length features_table \<noteq> length labels_seq then Inl DataShapeError
      else Inr (Some \<lparr>features = features_table, labels = labels_seq\<rparr>))"

text \<open>Modelled from the spec: step 1 of \<^verbatim>\<open>predict\<close> (missing), the Euclidean distance:
  the sum of the squared per-feature differences, square-rooted.\<close>

definition euclidean_distance :: "row \<Rightarrow> row \<Rightarrow> real" where
  "euclidean_distance query_vector r =
     sqrt (\<Sum>(a, b) \<leftarrow> zip query_vector r. (a - b)\<^sup>2)"

text \<open>Modelled from the spec: the NeighborCandidate of section 3 and steps 2 and 3 of
  \<^verbatim>\<open>predict\<close> (missing). A candidate pairs a training index with its distance to the
  query; all candidates are ranked by ascending distance with a stable sort (insertion
  of each candidate before the first strictly greater one), and the first \<open>k\<close> are kept.\<close>

type_synonym NeighborCandidate = "nat \<times> real"

definition candidates :: "table \<Rightarrow> row \<Rightarrow> NeighborCandidate list" where
  "candidates X query_vector = enumerate 0 (map (euclidean_distance query_vector) X)"

definition rank_neighbors :: "table \<Rightarrow> row \<Rightarrow> NeighborCandidate list" where
  "rank_neighbors X query_vector = sort_key snd (candidates X query_vector)"

definition k_nearest :: "table \<Rightarrow> row \<Rightarrow> nat \<Rightarrow> NeighborCandidate list" where
  "k_nearest X query_vector k = take k (rank_neighbors X query_vector)"

text \<open>Modelled from the spec: step 4 of \<^verbatim>\<open>predict\<close> (missing). The argument lists the
  selected rows' labels from nearest to farthest. The majority label is a label of
  maximal count; among several such labels the one whose group holds the nearest row
  wins, which is the first label of maximal count in the list.\<close>

definition majority_vote :: "'l list \<Rightarrow> 'l option" where
  "majority_vote ls =
     find (\<lambda>l. \<forall>l' \<in> set ls. count_list ls l' \<le> count_list ls l) ls"

text \<open>Modelled from the spec: \<^verbatim>\<open>KNNClassifier.predict\<close> (missing). NotFittedError
  before a successful fit; InvalidKError if \<open>k \<le> 0\<close> or \<open>k\<close> exceeds the number of
  training rows; DataShapeError (section 7) if the query's dimensionality differs from
  a stored row's; otherwise the vote among the \<open>k\<close> nearest rows.\<close>

definition predict :: "'l KNNClassifier \<Rightarrow> row \<Rightarrow> int \<Rightarrow> error + 'l" where
  "predict knn query_vector k =
     (case knn of
        None \<Rightarrow> Inl NotFittedError
      | Some ts \<Rightarrow>
          if k \<le> 0 \<or> int (length (features ts)) < k then Inl InvalidKError
          else if \<exists>r \<in> set (features ts). length r \<noteq> length query_vector
            then Inl DataShapeError
          else
            (case majority_vote
                    (map (\<lambda>c. labels ts ! fst c)
                       (k_nearest (features ts) query_vector (nat k))) of
               None \<Rightarrow> Inl InvalidKError
             | Some l \<Rightarrow> Inr l))"

section \<open>Tables with named columns\<close>

text \<open>
  A pandas \<^verbatim>\<open>DataFrame\<close> is its column names and its rows; every row has one cell per
  column (pandas frames are rectangular, and the column names read from a CSV file are
  distinct). A \<^verbatim>\<open>Series\<close> (one column, or the label sequence \<open>y\<close>) is a list of
  cells. Only the pandas operations the harness uses are modelled.
\<close>

record DataFrame =
  columns :: "string list"
  rows :: table

fun index_of :: "string \<Rightarrow> string list \<Rightarrow> nat option" where
  "index_of c [] = None"
| "index_of c (d # ds) = (if c = d then Some 0 else map_option Suc (index_of c ds))"

text \<open>\<^verbatim>\<open>data[c]\<close>: the column named \<open>c\<close>, KeyError when there is none.\<close>

definition getitem :: "DataFrame \<Rightarrow> string \<Rightarrow> error + real list" where
  "getitem df c =
     (case index_of c (columns df) of
        None \<Rightarrow> Inl KeyError
      | Some j \<Rightarrow> Inr (map (\<lambda>r. r ! j) (rows df)))"

text \<open>\<^verbatim>\<open>data.drop(names, axis=1)\<close>: the frame without the named columns, KeyError when
  a name is not a column.\<close>

definition drop_columns :: "DataFrame \<Rightarrow> string list \<Rightarrow> error + DataFrame" where
  "drop_columns df names =
     (if \<exists>c \<in> set names. c \<notin> set (columns df) then Inl KeyError
      else Inr \<lparr>columns = filter (\<lambda>c. c \<notin> set names) (columns df),
                rows = map (\<lambda>r. map snd (filter (\<lambda>cv. fst cv \<notin> set names)
                                              (zip (columns df) r))) (rows df)\<rparr>)"

text \<open>\<^verbatim>\<open>data[mask]\<close>: the rows whose entry of the boolean mask is true.\<close>

definition select_rows :: "DataFrame \<Rightarrow> bool list \<Rightarrow> DataFrame" where
  "select_rows df keep =
     \<lparr>columns = columns df, rows = map fst (filter snd (zip (rows df) keep))\<rparr>"

text \<open>\<^verbatim>\<open>y.iloc[index]\<close> and \<^verbatim>\<open>X.iloc[index]\<close>: selection by position, IndexError for a
  position out of range.\<close>

definition iloc :: "'a list \<Rightarrow> nat list \<Rightarrow> error + 'a list" where
  "iloc xs index =
     (if \<forall>i \<in> set index. i < length xs then Inr (map ((!) xs) index) else Inl IndexError)"

definition iloc_frame :: "DataFrame \<Rightarrow> nat list \<Rightarrow> error + DataFrame" where
  "iloc_frame df index =
     (case iloc (rows df) index of
        Inl e \<Rightarrow> Inl e
      | Inr rs \<Rightarrow> Inr \<lparr>columns = columns df, rows = rs\<rparr>)"

text \<open>\<^verbatim>\<open>pd.DataFrame(values, columns=names)\<close>: ValueError when a row's width is not the
  number of names.\<close>

definition pd_DataFrame :: "table \<Rightarrow> string list \<Rightarrow> error + DataFrame" where
  "pd_DataFrame values names =
     (if \<forall>r \<in> set values. length r = length names
      then Inr \<lparr>columns = names, rows = values\<rparr> else Inl ValueError)"

text \<open>\<^verbatim>\<open>array[i]\<close> on a two-dimensional numpy array: row \<open>i\<close>, IndexError out of range.\<close>

definition array_row :: "table \<Rightarrow> nat \<Rightarrow> error + row" where
  "array_row values i = (if i < length values then Inr (values ! i) else Inl IndexError)"

text \<open>A pandas Series built by \<^verbatim>\<open>silhouette_avg.loc[n] = v\<close>: index labels with their
  values in insertion order; assigning to a label that exists replaces its value.\<close>

fun loc_set :: "(nat \<times> real) list \<Rightarrow> nat \<Rightarrow> real \<Rightarrow> (nat \<times> real) list" where
  "loc_set [] n v = [(n, v)]"
| "loc_set ((m, w) # s) n v = (if m = n then (m, v) # s else (m, w) # loc_set s n v)"

text \<open>\<^verbatim>\<open>Series.idxmax()\<close>: the label of the first occurrence of the maximum, ValueError
  on an empty Series.\<close>

fun idxmax :: "(nat \<times> real) list \<Rightarrow> error + nat" where
  "idxmax [] = Inl ValueError"
| "idxmax (nv # s) = Inr (fst (foldl (\<lambda>best mw. if snd best < snd mw then mw else best) nv s))"

section \<open>The library and the trace of a run\<close>

text \<open>
  scikit-learn and the classifier module are collaborators of the harness, not part
  of it: they are the fields of a record \<open>library\<close>, and every function of the harness
  takes it as its first argument, so every theorem about the harness holds for every
  behaviour of the collaborators. A call can raise (\<open>Inl\<close>). The type variables are
  the fitted state of a \<^verbatim>\<open>StandardScaler\<close> (\<open>'s\<close>), a \<^verbatim>\<open>KNNClassifier\<close> instance
  (\<open>'c\<close>) and a fitted \<^verbatim>\<open>KMeans\<close> model (\<open>'m\<close>). Randomised calls take their
  \<^verbatim>\<open>random_state\<close> as an argument.
\<close>

record ('s, 'c, 'm) library =
  StandardScaler_fit :: "table \<Rightarrow> error + 's"
  StandardScaler_transform :: "'s \<Rightarrow> table \<Rightarrow> error + table"
  KMeans_fit :: "nat \<Rightarrow> int \<Rightarrow> table \<Rightarrow> error + 'm"
  KMeans_labels :: "'m \<Rightarrow> nat list"
  KMeans_predict :: "'m \<Rightarrow> table \<Rightarrow> error + nat list"
  silhouette_score :: "table \<Rightarrow> nat list \<Rightarrow> error + real"
  silhouette_samples :: "table \<Rightarrow> nat list \<Rightarrow> error + real list"
  PCA_fit_transform :: "nat \<Rightarrow> table \<Rightarrow> error + table"
  KFold_split :: "nat \<Rightarrow> bool \<Rightarrow> int \<Rightarrow> DataFrame \<Rightarrow> real list
                    \<Rightarrow> error + (nat list \<times> nat list) list"
  train_test_split :: "DataFrame \<Rightarrow> real list \<Rightarrow> real \<Rightarrow> int
                    \<Rightarrow> error + (DataFrame \<times> DataFrame \<times> real list \<times> real list)"
  accuracy_score :: "real list \<Rightarrow> real list \<Rightarrow> error + real"
  confusion_matrix :: "real list \<Rightarrow> real list \<Rightarrow> error + nat list list"
  classification_report :: "real list \<Rightarrow> real list \<Rightarrow> error + string"
  roc_curve :: "real list \<Rightarrow> real list \<Rightarrow> error + (real list \<times> real list \<times> real list)"
  roc_auc_score :: "real list \<Rightarrow> real list \<Rightarrow> error + real"
  knn_new :: "'c"
  knn_fit :: "'c \<Rightarrow> DataFrame \<Rightarrow> real list \<Rightarrow> error + 'c"
  knn_predict :: "'c \<Rightarrow> DataFrame \<Rightarrow> int \<Rightarrow> error + real"

text \<open>
  What a run does besides returning is its trace: the calls of the classifier and of
  the ROC and AUC functions with their arguments, and what is printed and plotted
  (a figure is recorded by the data it draws). \<open>Analysis\<close> is written by the call
  recorder of the top-level script only.
\<close>

datatype event =
    KNN_fit DataFrame "real list"
  | KNN_predict DataFrame int
  | Call_roc_curve "real list" "real list"
  | Call_roc_auc_score "real list" "real list"
  | Print_accuracy string real
  | Print_confusion_matrix string "nat list list"
  | Print_classification_report string string
  | Print_auc string real
  | Plot_roc_curve string "real list" "real list"
  | Silhouette_subplot nat "nat list" "real list" real
  | Scatter_subplot table "nat list" nat
  | Show_clustering string nat
  | Analysis string DataFrame string

text \<open>A run ends with a value or an exception and has a trace in both cases.\<close>

type_synonym 'a run = "(error + 'a) \<times> event list"

definition returns :: "'a \<Rightarrow> 'a run" where
  "returns x = (Inr x, [])"

definition call :: "error + 'a \<Rightarrow> 'a run" where
  "call r = (r, [])"

definition emit :: "event \<Rightarrow> unit run" where
  "emit ev = (Inr (), [ev])"

text \<open>Sequencing: the second part runs if the first returned; an exception ends the run.\<close>

definition and_then :: "'a run \<Rightarrow> ('a \<Rightarrow> 'b run) \<Rightarrow> 'b run" where
  "and_then m f =
     (case m of
        (Inl e, t) \<Rightarrow> (Inl e, t)
      | (Inr x, t) \<Rightarrow> (case f x of (r, t') \<Rightarrow> (r, t @ t')))"

text \<open>\<^verbatim>\<open>scaler.fit_transform(X)\<close> fits the scaler to \<open>X\<close>, replacing whatever it was fitted
  to before, and transforms \<open>X\<close> with the new state. The result is the scaler's new
  state and the transformed table.\<close>

definition fit_transform ::
  "('s, 'c, 'm) library \<Rightarrow> 's option \<Rightarrow> table \<Rightarrow> error + ('s option \<times> table)" where
  "fit_transform L scaler X =
     (case StandardScaler_fit L X of
        Inl e \<Rightarrow> Inl e
      | Inr s \<Rightarrow>
          (case StandardScaler_transform L s X of
             Inl e \<Rightarrow> Inl e
           | Inr X_scaled \<Rightarrow> Inr (Some s, X_scaled)))"

section \<open>Clustering analysis\<close>

text \<open>\<^verbatim>\<open>trained_clustering_model\<close> (lines 16 to 19).\<close>

definition trained_clustering_model ::
  "('s, 'c, 'm) library \<Rightarrow> table \<Rightarrow> nat \<Rightarrow> 'm run" where
  "trained_clustering_model L data n_clusters = call (KMeans_fit L n_clusters 42 data)"

text \<open>\<^verbatim>\<open>tune_clustering_hyperparameter\<close> (lines 22 to 35): the loop over the candidates,
  then \<^verbatim>\<open>idxmax\<close>.\<close>

fun tune_loop ::
  "('s, 'c, 'm) library \<Rightarrow> table \<Rightarrow> nat list \<Rightarrow> (nat \<times> real) list \<Rightarrow> (nat \<times> real) list run" where
  "tune_loop L data [] silhouette_avg = returns silhouette_avg"
| "tune_loop L data (n_clusters # range_n_clusters) silhouette_avg =
     and_then (trained_clustering_model L data n_clusters) (\<lambda>kmeans.
     and_then (call (silhouette_score L data (KMeans_labels L kmeans))) (\<lambda>score.
     tune_loop L data range_n_clusters (loc_set silhouette_avg n_clusters score)))"

definition tune_clustering_hyperparameter ::
  "('s, 'c, 'm) library \<Rightarrow> table \<Rightarrow> nat run" where
  "tune_clustering_hyperparameter L data =
     and_then (tune_loop L data [2..<30] []) (\<lambda>silhouette_avg.
     call (idxmax silhouette_avg))"

text \<open>\<^verbatim>\<open>set_silhouette_subplot\<close> (lines 59 to 101) and \<^verbatim>\<open>set_scatter_subplot\<close> (lines 104
  to 116): each computes the data of its subplot with one library call and draws it.\<close>

definition set_silhouette_subplot ::
  "('s, 'c, 'm) library \<Rightarrow> 'm \<Rightarrow> table \<Rightarrow> nat \<Rightarrow> nat list \<Rightarrow> real \<Rightarrow> unit run" where
  "set_silhouette_subplot L model data n_clusters cluster_labels silhouette_avg =
     and_then (call (silhouette_samples L data (KMeans_labels L model)))
       (\<lambda>sample_silhouette_values.
     emit (Silhouette_subplot n_clusters cluster_labels sample_silhouette_values
             silhouette_avg))"

definition set_scatter_subplot ::
  "('s, 'c, 'm) library \<Rightarrow> 'm \<Rightarrow> table \<Rightarrow> nat \<Rightarrow> nat list \<Rightarrow> unit run" where
  "set_scatter_subplot L model train_data n_clusters cluster_labels =
     and_then (call (PCA_fit_transform L 2 train_data)) (\<lambda>pca_data.
     emit (Scatter_subplot pca_data cluster_labels n_clusters))"

text \<open>\<^verbatim>\<open>visualize_clustering\<close> (lines 38 to 56).\<close>

definition visualize_clustering ::
  "('s, 'c, 'm) library \<Rightarrow> 'm \<Rightarrow> table \<Rightarrow> nat \<Rightarrow> real \<Rightarrow> string \<Rightarrow> unit run" where
  "visualize_clustering L model data n_clusters silhouette_avg label =
     and_then (call (KMeans_predict L model data)) (\<lambda>cluster_labels.
     and_then (set_silhouette_subplot L model data n_clusters cluster_labels silhouette_avg)
       (\<lambda>_.
     and_then (set_scatter_subplot L model data n_clusters cluster_labels) (\<lambda>_.
     emit (Show_clustering label n_clusters))))"

text \<open>\<^verbatim>\<open>evaluate_analyze_clustering\<close> (lines 119 to 135).\<close>

definition evaluate_analyze_clustering ::
  "('s, 'c, 'm) library \<Rightarrow> DataFrame \<Rightarrow> string \<Rightarrow> unit run" where
  "evaluate_analyze_clustering L data label =
     and_then (call (fit_transform L None (rows data))) (\<lambda>(scaler, data_scaled).
     and_then (tune_clustering_hyperparameter L data_scaled) (\<lambda>k.
     and_then (trained_clustering_model L data_scaled k) (\<lambda>clustering_model.
     and_then (call (silhouette_score L data_scaled (KMeans_labels L clustering_model)))
       (\<lambda>score.
     visualize_clustering L clustering_model data_scaled k score label))))"

section \<open>Nearest-neighbour analysis\<close>

text \<open>The list comprehension of lines 155 to 156 and of lines 208 to 209: for each
  \<open>i\<close> of the range, row \<open>i\<close> of the scaled test table is wrapped in a one-row frame
  and passed to \<^verbatim>\<open>knn.predict\<close> with the neighbour count.\<close>

fun predict_rows ::
  "('s, 'c, 'm) library \<Rightarrow> 'c \<Rightarrow> table \<Rightarrow> string list \<Rightarrow> int \<Rightarrow> nat list \<Rightarrow> real list run" where
  "predict_rows L knn X_test_scaled names n_neighbors [] = returns []"
| "predict_rows L knn X_test_scaled names n_neighbors (i # indices) =
     and_then (call (array_row X_test_scaled i)) (\<lambda>r.
     and_then (call (pd_DataFrame [r] names)) (\<lambda>query.
     and_then (emit (KNN_predict query n_neighbors)) (\<lambda>_.
     and_then (call (knn_predict L knn query n_neighbors)) (\<lambda>label.
     and_then (predict_rows L knn X_test_scaled names n_neighbors indices) (\<lambda>y_pred.
     returns (label # y_pred))))))"

text \<open>Lines 147 to 156 of \<^verbatim>\<open>k_fold_cv_knn\<close>, which are lines 200 to 209 of
  \<^verbatim>\<open>evaluate_analyze_knn\<close> word for word: one scaler object is fitted and applied to
  the training table, fitted again and applied to the test table; a new classifier is
  fitted on the scaled training table and asked for a label per test row.\<close>

definition scale_fit_predict ::
  "('s, 'c, 'm) library \<Rightarrow> DataFrame \<Rightarrow> real list \<Rightarrow> DataFrame \<Rightarrow> int \<Rightarrow> real list run" where
  "scale_fit_predict L X_train y_train X_test n_neighbors =
     and_then (call (fit_transform L None (rows X_train))) (\<lambda>(scaler, X_train_scaled).
     and_then (call (fit_transform L scaler (rows X_test))) (\<lambda>(scaler, X_test_scaled).
     and_then (call (pd_DataFrame X_train_scaled (columns X_train))) (\<lambda>train_frame.
     and_then (emit (KNN_fit train_frame y_train)) (\<lambda>_.
     and_then (call (knn_fit L (knn_new L) train_frame y_train)) (\<lambda>knn.
     predict_rows L knn X_test_scaled (columns X_test) n_neighbors
       [0..<length (rows X_test)])))))"

text \<open>\<^verbatim>\<open>k_fold_cv_knn\<close> (lines 138 to 162): the body of the loop for one fold, the loop
  that appends each fold's accuracy, and the mean.\<close>

definition cv_fold ::
  "('s, 'c, 'm) library \<Rightarrow> DataFrame \<Rightarrow> real list \<Rightarrow> int \<Rightarrow> nat list \<times> nat list \<Rightarrow> real run" where
  "cv_fold L X y n_neighbors part =
     (case part of (train_index, test_index) \<Rightarrow>
     and_then (call (iloc_frame X train_index)) (\<lambda>X_train.
     and_then (call (iloc_frame X test_index)) (\<lambda>X_test.
     and_then (call (iloc y train_index)) (\<lambda>y_train.
     and_then (call (iloc y test_index)) (\<lambda>y_test.
     and_then (scale_fit_predict L X_train y_train X_test n_neighbors) (\<lambda>y_pred.
     call (accuracy_score L y_test y_pred)))))))"

fun cv_loop ::
  "('s, 'c, 'm) library \<Rightarrow> DataFrame \<Rightarrow> real list \<Rightarrow> int \<Rightarrow> (nat list \<times> nat list) list
     \<Rightarrow> real list \<Rightarrow> real list run" where
  "cv_loop L X y n_neighbors [] accuracy = returns accuracy"
| "cv_loop L X y n_neighbors (part # folds) accuracy =
     and_then (cv_fold L X y n_neighbors part) (\<lambda>a.
     cv_loop L X y n_neighbors folds (accuracy @ [a]))"

definition k_fold_cv_knn ::
  "('s, 'c, 'm) library \<Rightarrow> DataFrame \<Rightarrow> real list \<Rightarrow> int \<Rightarrow> real run" where
  "k_fold_cv_knn L X y n_neighbors =
     and_then (call (KFold_split L 10 True 42 X y)) (\<lambda>folds.
     and_then (cv_loop L X y n_neighbors folds []) (\<lambda>accuracy.
     if length accuracy = 0 then call (Inl ZeroDivisionError)
     else returns (sum_list accuracy / real (length accuracy))))"

text \<open>\<^verbatim>\<open>confusion_matrix_knn\<close> (lines 165 to 169) and \<^verbatim>\<open>visualize_roc_curve_knn\<close> (lines
  172 to 187).\<close>

definition confusion_matrix_knn ::
  "('s, 'c, 'm) library \<Rightarrow> real list \<Rightarrow> real list \<Rightarrow> (nat list list \<times> string) run" where
  "confusion_matrix_knn L y_test y_pred =
     and_then (call (confusion_matrix L y_test y_pred)) (\<lambda>matrix.
     and_then (call (classification_report L y_test y_pred)) (\<lambda>report.
     returns (matrix, report)))"

definition visualize_roc_curve_knn ::
  "('s, 'c, 'm) library \<Rightarrow> real list \<Rightarrow> real list \<Rightarrow> string \<Rightarrow> unit run" where
  "visualize_roc_curve_knn L y_test y_pred label =
     and_then (emit (Call_roc_curve y_test y_pred)) (\<lambda>_.
     and_then (call (roc_curve L y_test y_pred)) (\<lambda>(fpr, tpr, thresholds).
     emit (Plot_roc_curve label fpr tpr)))"

text \<open>\<^verbatim>\<open>evaluate_analyze_knn\<close> (lines 190 to 227).\<close>

definition evaluate_analyze_knn ::
  "('s, 'c, 'm) library \<Rightarrow> DataFrame \<Rightarrow> string \<Rightarrow> unit run" where
  "evaluate_analyze_knn L data label =
     and_then (call (drop_columns data [''dec''])) (\<lambda>X.
     and_then (call (getitem data ''dec'')) (\<lambda>y.
     (let n_neighbors = 5 in
     and_then (call (train_test_split L X y (3 / 10) 42))
       (\<lambda>(X_train, X_test, y_train, y_test).
     and_then (scale_fit_predict L X_train y_train X_test n_neighbors) (\<lambda>y_pred.
     and_then (k_fold_cv_knn L X y n_neighbors) (\<lambda>accuracy.
     and_then (emit (Print_accuracy label accuracy)) (\<lambda>_.
     and_then (confusion_matrix_knn L y_test y_pred) (\<lambda>(matrix, report).
     and_then (emit (Print_confusion_matrix label matrix)) (\<lambda>_.
     and_then (emit (Print_classification_report label report)) (\<lambda>_.
     and_then (visualize_roc_curve_knn L y_test y_pred label) (\<lambda>_.
     and_then (emit (Call_roc_auc_score y_test y_pred)) (\<lambda>_.
     and_then (call (roc_auc_score L y_test y_pred)) (\<lambda>auc.
     emit (Print_auc label auc))))))))))))))"

section \<open>The top-level script\<close>

text \<open>
  Lines 230 to 269, from the loaded table on (the boolean columns are already 0/1
  cells). The two analyses are parameters, so that the script can be run with the
  analyses of this file or with a recorder of its calls. The masks of lines 245 to 259
  compare a column with constants.
\<close>

definition column_mask :: "DataFrame \<Rightarrow> string \<Rightarrow> (real \<Rightarrow> bool) \<Rightarrow> error + bool list" where
  "column_mask df c p = (case getitem df c of Inl e \<Rightarrow> Inl e | Inr vs \<Rightarrow> Inr (map p vs))"

definition mask_and :: "bool list \<Rightarrow> bool list \<Rightarrow> bool list" where
  "mask_and a b = map (\<lambda>(x, y). x \<and> y) (zip a b)"

definition script ::
  "(DataFrame \<Rightarrow> string \<Rightarrow> unit run) \<Rightarrow> (DataFrame \<Rightarrow> string \<Rightarrow> unit run) \<Rightarrow> DataFrame
     \<Rightarrow> unit run" where
  "script evaluate_analyze_clustering_fn evaluate_analyze_knn_fn preprocessed_data =
     and_then (evaluate_analyze_clustering_fn preprocessed_data ''all'') (\<lambda>_.
     and_then (evaluate_analyze_knn_fn preprocessed_data ''all'') (\<lambda>_.
     and_then (call (column_mask preprocessed_data ''gender'' (\<lambda>v. v = 1))) (\<lambda>is_male.
     (let male_data = select_rows preprocessed_data is_male in
     and_then (call (column_mask preprocessed_data ''gender'' (\<lambda>v. v = 0))) (\<lambda>is_female.
     (let female_data = select_rows preprocessed_data is_female in
     and_then (evaluate_analyze_clustering_fn male_data ''male'') (\<lambda>_.
     and_then (evaluate_analyze_clustering_fn female_data ''female'') (\<lambda>_.
     and_then (evaluate_analyze_knn_fn male_data ''male'') (\<lambda>_.
     and_then (evaluate_analyze_knn_fn female_data ''female'') (\<lambda>_.
     and_then (call (column_mask preprocessed_data ''age'' (\<lambda>v. 20 \<le> v))) (\<lambda>ge20.
     and_then (call (column_mask preprocessed_data ''age'' (\<lambda>v. v < 25))) (\<lambda>lt25.
     (let data_20_to_24 = select_rows preprocessed_data (mask_and ge20 lt25) in
     and_then (call (column_mask preprocessed_data ''age'' (\<lambda>v. 25 \<le> v))) (\<lambda>ge25.
     and_then (call (column_mask preprocessed_data ''age'' (\<lambda>v. v < 30))) (\<lambda>lt30.
     (let data_25_to_29 = select_rows preprocessed_data (mask_and ge25 lt30) in
     and_then (call (column_mask preprocessed_data ''age'' (\<lambda>v. 30 \<le> v))) (\<lambda>ge30.
     (let data_over_30 = select_rows preprocessed_data ge30 in
     and_then (evaluate_analyze_clustering_fn data_20_to_24 ''age from 20 to 24'') (\<lambda>_.
     and_then (evaluate_analyze_clustering_fn data_25_to_29 ''age from 25 to 29'') (\<lambda>_.
     and_then (evaluate_analyze_clustering_fn data_25_to_29 ''age over 30'') (\<lambda>_.
     and_then (evaluate_analyze_knn_fn data_20_to_24 ''age from 20 to 24'') (\<lambda>_.
     and_then (evaluate_analyze_knn_fn data_25_to_29 ''age from 25 to 29'') (\<lambda>_.
     evaluate_analyze_knn_fn data_over_30 ''age over 30'')))))))))))))))))))))))"

definition main :: "('s, 'c, 'm) library \<Rightarrow> DataFrame \<Rightarrow> unit run" where
  "main L preprocessed_data =
     script (evaluate_analyze_clustering L) (evaluate_analyze_knn L) preprocessed_data"

text \<open>The recorder: an analysis that only writes down which analysis was called, on
  which data and under which label.\<close>

definition record_call :: "string \<Rightarrow> DataFrame \<Rightarrow> string \<Rightarrow> unit run" where
  "record_call name data label = emit (Analysis name data label)"

section \<open>A small library for running the harness on examples\<close>

text \<open>
  The theorems about the harness hold for every \<open>library\<close>. To run the harness on
  concrete tables the examples use the stand-ins below: a scaler that centres each
  column on its mean, one fold per leading row (the first fold also takes the rows
  beyond the number of splits), a split that
  takes the test rows from the front, cluster labels by position, and the classifier
  of section 4.1 of the specification. They are not scikit-learn's algorithms and no
  theorem about the harness depends on them.
\<close>

definition toy_scaler_fit :: "table \<Rightarrow> error + real list" where
  "toy_scaler_fit X =
     (case X of
        [] \<Rightarrow> Inl ValueError
      | r # _ \<Rightarrow> Inr (map (\<lambda>j. (\<Sum>x \<leftarrow> X. x ! j) / real (length X)) [0..<length r]))"

definition toy_scaler_transform :: "real list \<Rightarrow> table \<Rightarrow> error + table" where
  "toy_scaler_transform means X = Inr (map (\<lambda>r. map (\<lambda>(v, m). v - m) (zip r means)) X)"

definition toy_KMeans_fit :: "nat \<Rightarrow> int \<Rightarrow> table \<Rightarrow> error + nat list" where
  "toy_KMeans_fit n_clusters random_state data =
     (if n_clusters = 0 then Inl ValueError
      else Inr (map (\<lambda>i. i mod n_clusters) [0..<length data]))"

definition toy_silhouette_score :: "table \<Rightarrow> nat list \<Rightarrow> error + real" where
  "toy_silhouette_score data cluster_labels =
     (if length data \<noteq> length cluster_labels \<or> data = [] then Inl ValueError
      else Inr (1 / real (length (remdups cluster_labels))))"

definition toy_KFold_split ::
  "nat \<Rightarrow> bool \<Rightarrow> int \<Rightarrow> DataFrame \<Rightarrow> real list \<Rightarrow> error + (nat list \<times> nat list) list" where
  "toy_KFold_split n_splits shuffle random_state X y =
     (let positions = [0..<length (rows X)] in
      if length (rows X) < n_splits \<or> length y \<noteq> length (rows X) then Inl ValueError
      else Inr (map (\<lambda>i. let test_index = (if i = 0 then i # drop n_splits positions else [i])
                          in (filter (\<lambda>j. j \<notin> set test_index) positions, test_index))
                  (take n_splits positions)))"

definition toy_train_test_split ::
  "DataFrame \<Rightarrow> real list \<Rightarrow> real \<Rightarrow> int
     \<Rightarrow> error + (DataFrame \<times> DataFrame \<times> real list \<times> real list)" where
  "toy_train_test_split X y test_size random_state =
     (let n_test = nat \<lceil>test_size * real (length (rows X))\<rceil> in
      if length y \<noteq> length (rows X) \<or> n_test = 0 \<or> length (rows X) \<le> n_test
      then Inl ValueError
      else Inr (\<lparr>columns = columns X, rows = drop n_test (rows X)\<rparr>,
                \<lparr>columns = columns X, rows = take n_test (rows X)\<rparr>,
                drop n_test y, take n_test y))"

definition toy_accuracy_score :: "real list \<Rightarrow> real list \<Rightarrow> error + real" where
  "toy_accuracy_score y_true y_pred =
     (if length y_true \<noteq> length y_pred \<or> y_true = [] then Inl ValueError
      else Inr (real (length (filter (\<lambda>(a, b). a = b) (zip y_true y_pred)))
                  / real (length y_true)))"

definition toy_confusion_matrix :: "real list \<Rightarrow> real list \<Rightarrow> error + nat list list" where
  "toy_confusion_matrix y_true y_pred =
     (if length y_true \<noteq> length y_pred then Inl ValueError
      else Inr (map (\<lambda>a. map (\<lambda>b. length (filter (\<lambda>p. p = (a, b)) (zip y_true y_pred)))
                            [0, 1]) [0, 1]))"

definition toy_roc_curve ::
  "real list \<Rightarrow> real list \<Rightarrow> error + (real list \<times> real list \<times> real list)" where
  "toy_roc_curve y_true y_score =
     (if length y_true \<noteq> length y_score then Inl ValueError
      else Inr ([0, 1], [0, 1], [1, 0]))"

definition toy_knn_predict :: "real KNNClassifier \<Rightarrow> DataFrame \<Rightarrow> int \<Rightarrow> error + real" where
  "toy_knn_predict knn query k =
     (case rows query of [r] \<Rightarrow> predict knn r k | _ \<Rightarrow> Inl DataShapeError)"

definition toy_library :: "(real list, real KNNClassifier, nat list) library" where
  "toy_library =
     \<lparr>StandardScaler_fit = toy_scaler_fit,
      StandardScaler_transform = toy_scaler_transform,
      KMeans_fit = toy_KMeans_fit,
      KMeans_labels = (\<lambda>m. m),
      KMeans_predict = (\<lambda>m data. Inr m),
      silhouette_score = toy_silhouette_score,
      silhouette_samples = (\<lambda>data cluster_labels. Inr (map (\<lambda>_. 0) data)),
      PCA_fit_transform = (\<lambda>n_components data. Inr (map (take n_components) data)),
      KFold_split = toy_KFold_split,
      train_test_split = toy_train_test_split,
      accuracy_score = toy_accuracy_score,
      confusion_matrix = toy_confusion_matrix,
      classification_report = (\<lambda>y_true y_pred. Inr ''report''),
      roc_curve = toy_roc_curve,
      roc_auc_score = (\<lambda>y_true y_score. Inr (1 / 2)),
      knn_new = KNNClassifier,
      knn_fit = (\<lambda>knn train_frame y_train. fit knn (rows train_frame) y_train),
      knn_predict = toy_knn_predict\<rparr>"


text \<open>The tables of the examples: one feature, ten rows, the label in column \<^verbatim>\<open>dec\<close>.\<close>

definition toy_X :: DataFrame where
  "toy_X = \<lparr>columns = [''x''], rows = [[0], [1], [2], [3], [4], [10], [11], [12], [13], [14]]\<rparr>"

definition toy_y :: "real list" where
  "toy_y = [0, 0, 0, 0, 0, 1, 1, 1, 1, 1]"

definition toy_data :: DataFrame where
  "toy_data = \<lparr>columns = [''x'', ''dec''],
     rows = [[0, 0], [1, 0], [2, 0], [3, 0], [4, 0], [10, 1], [11, 1], [12, 1], [13, 1], [14, 1]]\<rparr>"

section \<open>Observations on a trace\<close>





text \<open>\<^verbatim>\<open>KFold(n_splits, ...).split\<close> is scikit-learn's: its documentation promises
  \<^verbatim>\<open>n_splits\<close> pairs of index arrays whenever it yields at all (with fewer samples than
  that it raises). A library \<open>yields_n_splits\<close> when its \<open>KFold_split\<close> keeps this promise;
  the harness relies on it for the number of folds and checks nothing itself.\<close>

definition yields_n_splits :: "('s, 'c, 'm) library \<Rightarrow> bool" where
  "yields_n_splits L \<longleftrightarrow>
     (\<forall>n_splits shuffle random_state X y folds.
        KFold_split L n_splits shuffle random_state X y = Inr folds \<longrightarrow>
        length folds = n_splits)"

section \<open>Error handling of the classifier\<close>

text \<open>
  Claim C2. \<open>fit\<close> fails with DataShapeError whenever the feature-row count and the
  label count differ, and then no fitted state is returned. \<open>predict\<close> on an instance
  that was never successfully fitted fails with NotFittedError for every query and
  every \<open>k\<close>; \<open>predict\<close> on a fitted instance fails with InvalidKError for every query
  whenever \<open>k \<le> 0\<close> or \<open>k\<close> exceeds the number of stored rows. A call of \<open>predict\<close>
  yields either an error or exactly one label, never both.
\<close>

theorem classifier_errors:
  fixes knn :: "'l KNNClassifier"
  shows "(length X \<noteq> length y \<longrightarrow> fit knn X y = Inl DataShapeError)
   \<and> predict (KNNClassifier :: 'l KNNClassifier) q k = Inl NotFittedError
   \<and> (fit knn X y = Inr knn' \<and> (k \<le> 0 \<or> int (length X) < k)
        \<longrightarrow> predict knn' q k = Inl InvalidKError)
   \<and> ((\<exists>e. predict knn q k = Inl e) \<noteq> (\<exists>l. predict knn q k = Inr l))"
proof (intro conjI impI)
  show "fit knn X y = Inl DataShapeError" if "length X \<noteq> length y"
    using that by (simp add: fit_def)
  show "predict KNNClassifier q k = Inl NotFittedError"
    by (simp add: predict_def KNNClassifier_def)
  show "predict knn' q k = Inl InvalidKError"
    if "fit knn X y = Inr knn' \<and> (k \<le> 0 \<or> int (length X) < k)"
  proof -
    from that have "knn' = Some \<lparr>features = X, labels = y\<rparr>"
      by (auto simp: fit_def split: if_splits)
    with that show ?thesis by (auto simp: predict_def)
  qed
  show "(\<exists>e. predict knn q k = Inl e) \<noteq> (\<exists>l. predict knn q k = Inr l)"
    by (cases "predict knn q k") auto
qed

theorem classifier_errors_witness:
  "fit KNNClassifier [[0], [1]] [1 :: int] = Inl DataShapeError
   \<and> predict (KNNClassifier :: int KNNClassifier) [0] 1 = Inl NotFittedError
   \<and> predict (Some \<lparr>features = [[0], [1]], labels = [0, 1 :: int]\<rparr>) [0] 3
       = Inl InvalidKError"
  using classifier_errors [of "[[0], [1]]" "[1 :: int]" KNNClassifier "[0]" 1]
    classifier_errors [of "[[0], [1]]" "[0, 1 :: int]" KNNClassifier "[0]" 3
      "Some \<lparr>features = [[0], [1]], labels = [0, 1 :: int]\<rparr>"]
  by (simp add: fit_def KNNClassifier_def)

section \<open>The vote among the nearest rows\<close>

lemma le_sqrt_iff: "0 \<le> a \<Longrightarrow> a \<le> sqrt b \<longleftrightarrow> a\<^sup>2 \<le> b"
  by (metis abs_of_nonneg real_sqrt_abs real_sqrt_le_iff)

lemma sqrt_le_iff: "0 \<le> a \<Longrightarrow> sqrt b \<le> a \<longleftrightarrow> b \<le> a\<^sup>2"
  by (metis abs_of_nonneg real_sqrt_abs real_sqrt_le_iff)

lemma candidates_eq:
  "candidates X q = map (\<lambda>i. (i, euclidean_distance q (X ! i))) [0..<length X]"
  unfolding candidates_def
  by (rule nth_equalityI) (simp_all add: nth_enumerate_eq)

lemma euclid_formula:
  assumes "length r = length q"
  shows "euclidean_distance q r = sqrt (\<Sum>j<length q. (q ! j - r ! j)\<^sup>2)"
proof -
  have "(\<Sum>(a, b) \<leftarrow> zip q r. (a - b)\<^sup>2) = (\<Sum>j = 0..<length q. (q ! j - r ! j)\<^sup>2)"
    using assms by (simp add: sum_list_sum_nth)
  then show ?thesis by (simp add: euclidean_distance_def atLeast0LessThan)
qed

lemma stable_lex:
  "sorted (map f xs) \<Longrightarrow> (\<And>v. sorted_wrt R (filter (\<lambda>x. f x = v) xs))
   \<Longrightarrow> sorted_wrt (\<lambda>a b. f a < f b \<or> f a = f b \<and> R a b) xs"
proof (induction xs)
  case Nil
  then show ?case by simp
next
  case (Cons x xs)
  have tl: "sorted_wrt R (filter (\<lambda>x. f x = v) xs)" for v
    using Cons.prems(2) [of v] by (simp split: if_splits)
  have hd: "f x < f b \<or> f x = f b \<and> R x b" if "b \<in> set xs" for b
  proof -
    have "f x \<le> f b" using Cons.prems(1) that by simp
    moreover have "R x b" if "f x = f b"
      using Cons.prems(2) [of "f x"] \<open>b \<in> set xs\<close> that by simp
    ultimately show ?thesis by (auto simp: less_le)
  qed
  from Cons.IH tl Cons.prems(1) hd show ?case by simp
qed

lemma rank_fst_mset: "mset (map fst (rank_neighbors X q)) = mset [0..<length X]"
proof -
  have "mset (rank_neighbors X q) = mset (candidates X q)"
    by (simp add: rank_neighbors_def)
  then have "mset (map fst (rank_neighbors X q)) = mset (map fst (candidates X q))"
    by (metis mset_map)
  also have "map fst (candidates X q) = [0..<length X]"
    by (simp add: candidates_eq comp_def)
  finally show ?thesis .
qed

lemma rank_snd:
  "c \<in> set (rank_neighbors X q) \<Longrightarrow> snd c = euclidean_distance q (X ! fst c)"
  by (auto simp: rank_neighbors_def candidates_eq)

lemma rank_sorted:
  "sorted_wrt (\<lambda>a b. snd a < snd b \<or> snd a = snd b \<and> fst a < fst b) (rank_neighbors X q)"
proof (rule stable_lex)
  show "sorted (map snd (rank_neighbors X q))"
    by (simp add: rank_neighbors_def)
next
  fix v
  have "sorted_wrt (\<lambda>a b. fst a < fst b) (candidates X q)"
    by (simp add: candidates_eq sorted_wrt_map)
  then have "sorted_wrt (\<lambda>a b. fst a < fst b) (filter (\<lambda>x. snd x = v) (candidates X q))"
    by (rule sorted_wrt_filter)
  then show "sorted_wrt (\<lambda>a b. fst a < fst b) (filter (\<lambda>x. snd x = v) (rank_neighbors X q))"
    by (simp add: rank_neighbors_def sort_key_stable)
qed

lemma max_count_exists:
  assumes "ls \<noteq> []"
  shows "\<exists>l \<in> set ls. \<forall>l' \<in> set ls. count_list ls l' \<le> count_list ls l"
proof -
  let ?C = "count_list ls ` set ls"
  have "finite ?C" "?C \<noteq> {}" using assms by auto
  then have "Max ?C \<in> ?C" by (rule Max_in)
  then obtain l where l: "l \<in> set ls" "count_list ls l = Max ?C" by auto
  have "count_list ls l' \<le> count_list ls l" if "l' \<in> set ls" for l'
    using that l(2) \<open>finite ?C\<close> by (simp add: Max_ge)
  with l(1) show ?thesis by blast
qed

lemma majority_vote_first:
  assumes "ls \<noteq> []"
  shows "\<exists>i<length ls. majority_vote ls = Some (ls ! i)
           \<and> (\<forall>l'. count_list ls l' \<le> count_list ls (ls ! i))
           \<and> (\<forall>j<i. count_list ls (ls ! j) < count_list ls (ls ! i))"
proof -
  let ?P = "\<lambda>l. \<forall>l' \<in> set ls. count_list ls l' \<le> count_list ls l"
  from max_count_exists [OF assms] obtain m where "m \<in> set ls" "?P m" by blast
  then have "find ?P ls \<noteq> None" by (auto simp: find_None_iff)
  then obtain l where "find ?P ls = Some l" by auto
  then obtain i where i: "i < length ls" "?P (ls ! i)" "l = ls ! i" "\<forall>j<i. \<not> ?P (ls ! j)"
    unfolding find_Some_iff by blast
  have all: "count_list ls l' \<le> count_list ls (ls ! i)" for l'
  proof (cases "l' \<in> set ls")
    case True with i(2) show ?thesis by blast
  next
    case False then show ?thesis by (simp add: count_list_0_iff)
  qed
  have "count_list ls (ls ! j) < count_list ls (ls ! i)" if "j < i" for j
  proof -
    from i(4) that obtain l' where "l' \<in> set ls" "\<not> count_list ls l' \<le> count_list ls (ls ! j)"
      by blast
    with all [of l'] show ?thesis by simp
  qed
  with i all \<open>find ?P ls = Some l\<close> show ?thesis
    unfolding majority_vote_def by blast
qed


lemma predict_fitted:
  assumes "0 < k" "k \<le> int (length X)" "\<forall>r \<in> set X. length r = length q"
  shows "predict (Some \<lparr>features = X, labels = y\<rparr>) q k =
           (case majority_vote (map (\<lambda>c. y ! fst c) (k_nearest X q (nat k))) of
              None \<Rightarrow> Inl InvalidKError | Some l \<Rightarrow> Inr l)"
  using assms by (auto simp: predict_def)

lemma fit_Inr: "fit knn X y = Inr knn' \<Longrightarrow>
    length X = length y \<and> knn' = Some \<lparr>features = X, labels = y\<rparr>"
  by (auto simp: fit_def split: if_splits)

lemma predict_vote:
  fixes y :: "'l list"
  assumes "0 < k" "k \<le> int (length X)" "\<forall>r \<in> set X. length r = length q"
  defines "sel \<equiv> take (nat k) (rank_neighbors X q)"
  defines "ls \<equiv> map (\<lambda>c. y ! fst c) sel"
  shows "\<exists>l. predict (Some \<lparr>features = X, labels = y\<rparr>) q k = Inr l
      \<and> (\<forall>l'. count_list ls l' \<le> count_list ls l)
      \<and> (\<exists>c \<in> set sel. y ! fst c = l
            \<and> (\<forall>c' \<in> set sel. count_list ls (y ! fst c') = count_list ls l \<longrightarrow> snd c \<le> snd c'))"
proof -
  have len: "length sel = nat k" using assms(1,2) by (simp add: sel_def rank_neighbors_def candidates_eq)
  then have "ls \<noteq> []" using assms(1) by (auto simp: ls_def)
  from majority_vote_first [OF this] obtain i where i: "i < length ls"
    "majority_vote ls = Some (ls ! i)" "\<forall>l'. count_list ls l' \<le> count_list ls (ls ! i)"
    "\<forall>j<i. count_list ls (ls ! j) < count_list ls (ls ! i)" by blast
  have isel: "i < length sel" using i(1) by (simp add: ls_def)
  have lsi: "ls ! i = y ! fst (sel ! i)" using isel by (simp add: ls_def)
  have pred: "predict (Some \<lparr>features = X, labels = y\<rparr>) q k = Inr (ls ! i)"
    using i(2) by (simp add: predict_fitted [OF assms(1-3)] k_nearest_def ls_def sel_def)
  have srt: "sorted (map snd sel)"
    unfolding sel_def rank_neighbors_def by (simp add: sorted_map sorted_wrt_take flip: take_map)
      (metis sorted_map sorted_sort_key sorted_wrt_take)
  have near: "snd (sel ! i) \<le> snd c'"
    if "c' \<in> set sel" "count_list ls (y ! fst c') = count_list ls (ls ! i)" for c'
  proof -
    from that(1) obtain j where j: "j < length sel" "c' = sel ! j" by (auto simp: in_set_conv_nth)
    then have "ls ! j = y ! fst c'" by (simp add: ls_def)
    with that(2) i(4) have "\<not> j < i" by force
    then have "i \<le> j" by simp
    from sorted_nth_mono [OF srt this] j(1) show ?thesis by (simp add: j(2) isel)
  qed
  have "sel ! i \<in> set sel" using isel by simp
  with pred i(3) lsi near show ?thesis by (metis (no_types, lifting))
qed


lemma rank_fst_perm:
  "distinct (map fst (rank_neighbors X q)) \<and> fst ` set (rank_neighbors X q) = {0..<length X}"
proof -
  have "distinct (map fst (rank_neighbors X q)) = distinct [0..<length X]"
    by (rule mset_eq_imp_distinct_iff) (rule rank_fst_mset)
  moreover have "set (map fst (rank_neighbors X q)) = set [0..<length X]"
    by (rule mset_eq_setD) (rule rank_fst_mset)
  ultimately show ?thesis by simp
qed

text \<open>
  Claim C1. For a classifier fitted on \<open>X\<close> and \<open>y\<close>, a query of the rows' dimensionality
  and \<open>0 < k \<le> length X\<close>, \<open>predict\<close> returns a label \<open>l\<close> described as follows. There
  is a ranking of all training rows (every index once) in which each row carries its
  Euclidean distance to the query, the square root of the sum over all columns of the
  squared differences, and which ascends in distance with rows of equal distance in
  training order (a stable sort). The selection is its first \<open>k\<close> entries. No label
  occurs more often among the selected rows than \<open>l\<close>, and some selected row labelled
  \<open>l\<close> is at least as near as every selected row whose label occurs as often as \<open>l\<close>.
\<close>

theorem predict_nearest_majority:
  fixes y :: "'l list"
  assumes "fit knn X y = Inr knn'" and "0 < k" and "k \<le> int (length X)"
    and "\<forall>r \<in> set X. length r = length q"
  shows "\<exists>ranked sel ls l.
      distinct (map fst ranked) \<and> fst ` set ranked = {0..<length X}
    \<and> (\<forall>c \<in> set ranked. snd c = sqrt (\<Sum>j<length q. (q ! j - X ! fst c ! j)\<^sup>2))
    \<and> sorted_wrt (\<lambda>a b. snd a < snd b \<or> snd a = snd b \<and> fst a < fst b) ranked
    \<and> sel = take (nat k) ranked \<and> length sel = nat k
    \<and> ls = map (\<lambda>c. y ! fst c) sel
    \<and> predict knn' q k = Inr l
    \<and> (\<forall>l'. count_list ls l' \<le> count_list ls l)
    \<and> (\<exists>c \<in> set sel. y ! fst c = l
          \<and> (\<forall>c' \<in> set sel. count_list ls (y ! fst c') = count_list ls l \<longrightarrow> snd c \<le> snd c'))"
proof -
  let ?ranked = "rank_neighbors X q"
  let ?sel = "take (nat k) ?ranked"
  let ?ls = "map (\<lambda>c. y ! fst c) ?sel"
  from assms(1) have knn': "knn' = Some \<lparr>features = X, labels = y\<rparr>"
    by (simp add: fit_Inr)
  have dist: "\<forall>c \<in> set ?ranked. snd c = sqrt (\<Sum>j<length q. (q ! j - X ! fst c ! j)\<^sup>2)"
  proof
    fix c assume c: "c \<in> set ?ranked"
    with rank_fst_perm [of X q] have "fst c < length X" by auto
    then have "length (X ! fst c) = length q" using assms(4) by simp
    from euclid_formula [OF this] rank_snd [OF c] show "snd c = sqrt (\<Sum>j<length q. (q ! j - X ! fst c ! j)\<^sup>2)"
      by simp
  qed
  have len: "length ?sel = nat k"
    using assms(2,3) by (simp add: rank_neighbors_def candidates_eq)
  from predict_vote [OF assms(2-4), of y] obtain l where
    l: "predict knn' q k = Inr l" "\<forall>l'. count_list ?ls l' \<le> count_list ?ls l"
     "\<exists>c \<in> set ?sel. y ! fst c = l
          \<and> (\<forall>c' \<in> set ?sel. count_list ?ls (y ! fst c') = count_list ?ls l \<longrightarrow> snd c \<le> snd c')"
    unfolding knn' by blast
  from rank_fst_perm [of X q] rank_sorted [of X q] dist len l show ?thesis
    by (intro exI [of _ ?ranked] exI [of _ ?sel] exI [of _ ?ls] exI [of _ l] conjI refl; blast)
qed

theorem predict_nearest_majority_witness:
  "(\<exists>ranked sel ls l.
      distinct (map fst ranked)
    \<and> fst ` set ranked = {0..<length [[0, 0], [1, 0], [5, 5], [6, 5 :: real]]}
    \<and> (\<forall>c \<in> set ranked. snd c = sqrt (\<Sum>j<length [1 / 2, 0 :: real].
           ([1 / 2, 0] ! j - [[0, 0], [1, 0], [5, 5], [6, 5]] ! fst c ! j)\<^sup>2))
    \<and> sorted_wrt (\<lambda>a b. snd a < snd b \<or> snd a = snd b \<and> fst a < fst b) ranked
    \<and> sel = take (nat 1) ranked \<and> length sel = nat 1
    \<and> ls = map (\<lambda>c. [''A'', ''A'', ''B'', ''B''] ! fst c) sel
    \<and> predict (Some \<lparr>features = [[0, 0], [1, 0], [5, 5], [6, 5]],
                       labels = [''A'', ''A'', ''B'', ''B'']\<rparr>) [1 / 2, 0] 1 = Inr l
    \<and> (\<forall>l'. count_list ls l' \<le> count_list ls l)
    \<and> (\<exists>c \<in> set sel. [''A'', ''A'', ''B'', ''B''] ! fst c = l
          \<and> (\<forall>c' \<in> set sel. count_list ls ([''A'', ''A'', ''B'', ''B''] ! fst c')
                 = count_list ls l \<longrightarrow> snd c \<le> snd c')))
   \<and> predict (Some \<lparr>features = [[0, 0], [1, 0], [5, 5], [6, 5]],
                       labels = [''A'', ''A'', ''B'', ''B'']\<rparr>) [1 / 2, 0] 1 = Inr ''A''"
proof (rule conjI)
  let ?X = "[[0, 0], [1, 0], [5, 5], [6, 5 :: real]]"
  let ?y = "[''A'', ''A'', ''B'', ''B'']"
  have f: "fit KNNClassifier ?X ?y = Inr (Some \<lparr>features = ?X, labels = ?y\<rparr>)"
    by (simp add: fit_def)
  have k: "(0 :: int) < 1" "1 \<le> int (length ?X)" by simp_all
  have d: "\<forall>r \<in> set ?X. length r = length [1 / 2, 0 :: real]" by simp
  show "\<exists>ranked sel ls l.
      distinct (map fst ranked)
    \<and> fst ` set ranked = {0..<length ?X}
    \<and> (\<forall>c \<in> set ranked. snd c = sqrt (\<Sum>j<length [1 / 2, 0 :: real].
           ([1 / 2, 0] ! j - ?X ! fst c ! j)\<^sup>2))
    \<and> sorted_wrt (\<lambda>a b. snd a < snd b \<or> snd a = snd b \<and> fst a < fst b) ranked
    \<and> sel = take (nat 1) ranked \<and> length sel = nat 1
    \<and> ls = map (\<lambda>c. ?y ! fst c) sel
    \<and> predict (Some \<lparr>features = ?X, labels = ?y\<rparr>) [1 / 2, 0] 1 = Inr l
    \<and> (\<forall>l'. count_list ls l' \<le> count_list ls l)
    \<and> (\<exists>c \<in> set sel. ?y ! fst c = l
          \<and> (\<forall>c' \<in> set sel. count_list ls (?y ! fst c')
                 = count_list ls l \<longrightarrow> snd c \<le> snd c'))"
    by (rule predict_nearest_majority [OF f k d])
  show "predict (Some \<lparr>features = ?X, labels = ?y\<rparr>) [1 / 2, 0] 1 = Inr ''A''"
    by (simp add: predict_def k_nearest_def rank_neighbors_def candidates_def
        euclidean_distance_def majority_vote_def le_sqrt_iff sqrt_le_iff power2_eq_square)
qed

lemma full_selection_counts:
  assumes "length X = length y"
  shows "count_list (map (\<lambda>c. y ! fst c) (take (length X) (rank_neighbors X q))) l
           = count_list y l"
proof -
  let ?r = "rank_neighbors X q"
  have "length ?r = length X" by (simp add: rank_neighbors_def candidates_eq)
  then have "take (length X) ?r = ?r" by simp
  moreover have "mset (map (\<lambda>c. y ! fst c) ?r) = mset y"
  proof -
    have "mset (map ((!) y) (map fst ?r)) = mset (map ((!) y) [0..<length X])"
      using rank_fst_mset [of X q] by (metis mset_map)
    also have "map ((!) y) [0..<length X] = y"
      unfolding assms by (rule map_nth)
    finally show ?thesis by (simp add: comp_def)
  qed
  ultimately show ?thesis by (metis count_mset)
qed

text \<open>
  Claim C3, amended. With \<open>k\<close> equal to the number of training rows, \<open>predict\<close> returns
  a label that no label outnumbers in the whole training set; when that label
  strictly outnumbers every other label, every query of matching dimensionality gets
  it. (With several most frequent labels the answer follows the query: see the
  counterexample after the theorem.)
\<close>

theorem predict_all_rows:
  fixes y :: "'l list"
  assumes "fit knn X y = Inr knn'" and "X \<noteq> []" and "\<forall>r \<in> set X. length r = length q"
  shows "\<exists>l. predict knn' q (int (length X)) = Inr l
      \<and> (\<forall>l'. count_list y l' \<le> count_list y l)
      \<and> ((\<forall>l'. l' \<noteq> l \<longrightarrow> count_list y l' < count_list y l) \<longrightarrow>
           (\<forall>q'. (\<forall>r \<in> set X. length r = length q') \<longrightarrow>
                  predict knn' q' (int (length X)) = Inr l))"
proof -
  from assms(1) have knn': "knn' = Some \<lparr>features = X, labels = y\<rparr>" and len: "length X = length y"
    by (simp_all add: fit_Inr)
  have mode: "\<exists>l. predict knn' p (int (length X)) = Inr l \<and> (\<forall>l'. count_list y l' \<le> count_list y l)"
    if "\<forall>r \<in> set X. length r = length p" for p
  proof -
    have "0 < int (length X)" "int (length X) \<le> int (length X)" using assms(2) by simp_all
    from predict_vote [OF this that, of y] obtain l where
      "predict knn' p (int (length X)) = Inr l"
      "\<forall>l'. count_list (map (\<lambda>c. y ! fst c) (take (nat (int (length X))) (rank_neighbors X p))) l'
          \<le> count_list (map (\<lambda>c. y ! fst c) (take (nat (int (length X))) (rank_neighbors X p))) l"
      unfolding knn' by blast
    then show ?thesis by (auto simp: full_selection_counts [OF len])
  qed
  from mode [OF assms(3)] obtain l where l: "predict knn' q (int (length X)) = Inr l"
    "\<forall>l'. count_list y l' \<le> count_list y l" by blast
  have "predict knn' q' (int (length X)) = Inr l"
    if strict: "\<forall>l'. l' \<noteq> l \<longrightarrow> count_list y l' < count_list y l"
      and dim: "\<forall>r \<in> set X. length r = length q'" for q'
  proof -
    from mode [OF dim] obtain m where m: "predict knn' q' (int (length X)) = Inr m"
      "\<forall>l'. count_list y l' \<le> count_list y m" by blast
    have "m = l"
    proof (rule ccontr)
      assume "m \<noteq> l"
      with strict have "count_list y m < count_list y l" by simp
      moreover from m(2) have "count_list y l \<le> count_list y m" by simp
      ultimately show False by simp
    qed
    with m(1) show ?thesis by simp
  qed
  with l show ?thesis by blast
qed

theorem predict_all_rows_witness:
  "predict (Some \<lparr>features = [[0], [10], [20]], labels = [0, 1, 1 :: int]\<rparr>) [0] 3 = Inr 1
   \<and> predict (Some \<lparr>features = [[0], [10], [20]], labels = [0, 1, 1 :: int]\<rparr>) [7] 3 = Inr 1"
proof -
  let ?X = "[[0], [10], [20 :: real]]"
  let ?y = "[0, 1, 1 :: int]"
  let ?c = "Some \<lparr>features = ?X, labels = ?y\<rparr>"
  have f: "fit KNNClassifier ?X ?y = Inr ?c"
    by (simp add: fit_def)
  have ne: "?X \<noteq> []" by simp
  have d: "\<forall>r \<in> set ?X. length r = length [0 :: real]" by simp
  from predict_all_rows [OF f ne d] obtain l where
    l1: "predict ?c [0] (int (length ?X)) = Inr l"
    and l2: "\<forall>l'. count_list ?y l' \<le> count_list ?y l"
    and l3: "(\<forall>l'. l' \<noteq> l \<longrightarrow> count_list ?y l' < count_list ?y l) \<longrightarrow>
           (\<forall>q'. (\<forall>r \<in> set ?X. length r = length q') \<longrightarrow>
              predict ?c q' (int (length ?X)) = Inr l)"
    by blast
  from l2 have "count_list ?y 1 \<le> count_list ?y l" by blast
  then have l: "l = 1" by (simp split: if_splits)
  have "\<forall>l'. l' \<noteq> 1 \<longrightarrow> count_list ?y l' < count_list ?y 1" by simp
  with l3 l have "\<forall>q'. (\<forall>r \<in> set ?X. length r = length q') \<longrightarrow>
              predict ?c q' (int (length ?X)) = Inr 1" by simp
  then have "(\<forall>r \<in> set ?X. length r = length [7 :: real]) \<longrightarrow>
              predict ?c [7] (int (length ?X)) = Inr 1" by (rule spec)
  with l1 l show ?thesis by simp
qed

text \<open>
  The claim C3 as stated fails: with one row of each of two labels and \<open>k = 2\<close>, the
  answer is the label of the row nearer to the query.
\<close>

theorem predict_all_rows_depends_on_query:
  "predict (Some \<lparr>features = [[0], [10]], labels = [0, 1 :: int]\<rparr>) [0] 2 = Inr 0
   \<and> predict (Some \<lparr>features = [[0], [10]], labels = [0, 1 :: int]\<rparr>) [10] 2 = Inr 1"
  by (simp add: predict_def k_nearest_def rank_neighbors_def candidates_def
        euclidean_distance_def majority_vote_def)

section \<open>Runs and their traces\<close>

lemma and_then_Inr:
  "and_then m f = (Inr y, t) \<longleftrightarrow>
     (\<exists>x t1 t2. m = (Inr x, t1) \<and> f x = (Inr y, t2) \<and> t = t1 @ t2)"
  by (auto simp: and_then_def split: prod.splits sum.splits)

lemma and_then_call_Inr:
  "and_then (call r) f = (Inr y, t) \<longleftrightarrow> (\<exists>x. r = Inr x \<and> f x = (Inr y, t))"
  by (auto simp: and_then_def call_def split: prod.splits sum.splits)

lemma call_Inr: "call r = (Inr x, t) \<longleftrightarrow> r = Inr x \<and> t = []"
  by (auto simp: call_def)

lemma emit_Inr: "emit ev = (Inr x, t) \<longleftrightarrow> t = [ev]"
  by (auto simp: emit_def)

lemma returns_Inr: "returns x = (Inr y, t) \<longleftrightarrow> y = x \<and> t = []"
  by (auto simp: returns_def)

lemma and_then_eval:
  "and_then (Inr x, t) f = (case f x of (r, t') \<Rightarrow> (r, t @ t'))"
  "and_then (Inl e, t) f = (Inl e, t)"
  by (simp_all add: and_then_def)


section \<open>Which data the script analyses\<close>

text \<open>
  Claim C7 fails on the code. With the call recorder in place of the two analyses, the
  script is run on a table with one person aged 22, one aged 27 and one aged 33. The
  clustering analysis labelled "age over 30" (line 264) receives the rows of the band
  25 to 29, as the call before it does, and the rows of the band 30 and over are never
  clustered; the nearest-neighbour analysis of line 269 does receive them.
\<close>

theorem script_clusters_band_25_to_29_twice:
  "script (record_call ''evaluate_analyze_clustering'') (record_call ''evaluate_analyze_knn'')
     \<lparr>columns = [''gender'', ''age'', ''dec''], rows = [[1, 22, 1], [0, 27, 0], [1, 33, 1]]\<rparr>
   = (Inr (),
      [Analysis ''evaluate_analyze_clustering''
         \<lparr>columns = [''gender'', ''age'', ''dec''], rows = [[1, 22, 1], [0, 27, 0], [1, 33, 1]]\<rparr> ''all'',
       Analysis ''evaluate_analyze_knn''
         \<lparr>columns = [''gender'', ''age'', ''dec''], rows = [[1, 22, 1], [0, 27, 0], [1, 33, 1]]\<rparr> ''all'',
       Analysis ''evaluate_analyze_clustering''
         \<lparr>columns = [''gender'', ''age'', ''dec''], rows = [[1, 22, 1], [1, 33, 1]]\<rparr> ''male'',
       Analysis ''evaluate_analyze_clustering''
         \<lparr>columns = [''gender'', ''age'', ''dec''], rows = [[0, 27, 0]]\<rparr> ''female'',
       Analysis ''evaluate_analyze_knn''
         \<lparr>columns = [''gender'', ''age'', ''dec''], rows = [[1, 22, 1], [1, 33, 1]]\<rparr> ''male'',
       Analysis ''evaluate_analyze_knn''
         \<lparr>columns = [''gender'', ''age'', ''dec''], rows = [[0, 27, 0]]\<rparr> ''female'',
       Analysis ''evaluate_analyze_clustering''
         \<lparr>columns = [''gender'', ''age'', ''dec''], rows = [[1, 22, 1]]\<rparr> ''age from 20 to 24'',
       Analysis ''evaluate_analyze_clustering''
         \<lparr>columns = [''gender'', ''age'', ''dec''], rows = [[0, 27, 0]]\<rparr> ''age from 25 to 29'',
       Analysis ''evaluate_analyze_clustering''
         \<lparr>columns = [''gender'', ''age'', ''dec''], rows = [[0, 27, 0]]\<rparr> ''age over 30'',
       Analysis ''evaluate_analyze_knn''
         \<lparr>columns = [''gender'', ''age'', ''dec''], rows = [[1, 22, 1]]\<rparr> ''age from 20 to 24'',
       Analysis ''evaluate_analyze_knn''
         \<lparr>columns = [''gender'', ''age'', ''dec''], rows = [[0, 27, 0]]\<rparr> ''age from 25 to 29'',
       Analysis ''evaluate_analyze_knn''
         \<lparr>columns = [''gender'', ''age'', ''dec''], rows = [[1, 33, 1]]\<rparr> ''age over 30''])"
  by (simp add: script_def record_call_def and_then_eval emit_def call_def
      column_mask_def getitem_def select_rows_def mask_and_def Let_def)


section \<open>Tuning the number of clusters\<close>

lemma foldl_first_max:
  fixes xs :: "(nat \<times> real) list"
  defines "step \<equiv> \<lambda>best mw :: nat \<times> real. if snd best < snd mw then mw else best"
  shows "\<exists>i<length (x # xs). foldl step x xs = (x # xs) ! i
           \<and> (\<forall>j<length (x # xs). snd ((x # xs) ! j) \<le> snd ((x # xs) ! i))
           \<and> (\<forall>j<i. snd ((x # xs) ! j) < snd ((x # xs) ! i))"
proof (induction xs rule: rev_induct)
  case Nil
  then show ?case by simp
next
  case (snoc a xs)
  then obtain i where i: "i < length (x # xs)" "foldl step x xs = (x # xs) ! i"
    "\<forall>j<length (x # xs). snd ((x # xs) ! j) \<le> snd ((x # xs) ! i)"
    "\<forall>j<i. snd ((x # xs) ! j) < snd ((x # xs) ! i)" by blast
  let ?ys = "x # xs @ [a]"
  have pre: "?ys ! j = (x # xs) ! j" if "j < length (x # xs)" for j
    using that by (metis append_Cons nth_append)
  have last: "?ys ! length (x # xs) = a"
    by (metis append_Cons nth_append_length)
  show ?case
  proof (cases "snd ((x # xs) ! i) < snd a")
    case True
    have "foldl step x (xs @ [a]) = ?ys ! length (x # xs)"
      using True i(2) by (simp add: step_def last del: nth_Cons_Suc length_Cons)
    moreover have "snd (?ys ! j) \<le> snd a" if "j < length ?ys" for j
    proof (cases "j < length (x # xs)")
      case True
      with i(3) \<open>snd ((x # xs) ! i) < snd a\<close> pre [OF True] show ?thesis by force
    next
      case False
      with that have "j = length (x # xs)" by simp
      with last show ?thesis by simp
    qed
    moreover have "snd (?ys ! j) < snd a" if "j < length (x # xs)" for j
      using i(3) True pre [OF that] that by force
    ultimately show ?thesis
      using last by (intro exI [of _ "length (x # xs)"]) (simp del: nth_Cons_Suc foldl_append)
  next
    case False
    have "foldl step x (xs @ [a]) = ?ys ! i"
      using False i(1,2) pre [of i] by (simp add: step_def del: nth_Cons_Suc length_Cons)
    moreover have "snd (?ys ! j) \<le> snd (?ys ! i)" if "j < length ?ys" for j
    proof (cases "j < length (x # xs)")
      case True
      with i(1,3) pre [OF True] pre [OF i(1)] show ?thesis by simp
    next
      case F: False
      with that have "j = length (x # xs)" by simp
      with last False pre [OF i(1)] show ?thesis by simp
    qed
    moreover have "snd (?ys ! j) < snd (?ys ! i)" if "j < i" for j
      using i(1,4) that pre [of j] pre [OF i(1)] by simp
    ultimately show ?thesis using i(1) by (intro exI [of _ i]) simp
  qed
qed

lemma loc_set_new: "n \<notin> fst ` set s \<Longrightarrow> loc_set s n v = s @ [(n, v)]"
  by (induction s n v rule: loc_set.induct) auto

lemma tune_loop_Inr:
  assumes "tune_loop L data ns acc = (Inr s, t)" "distinct ns" "set ns \<inter> fst ` set acc = {}"
  shows "t = [] \<and> (\<exists>f. (\<forall>n \<in> set ns. \<exists>m. KMeans_fit L n 42 data = Inr m
              \<and> silhouette_score L data (KMeans_labels L m) = Inr (f n))
            \<and> s = acc @ map (\<lambda>n. (n, f n)) ns)"
  using assms
proof (induction ns arbitrary: acc t)
  case Nil
  then show ?case by (simp add: returns_Inr)
next
  case (Cons n ns)
  from Cons.prems(1) obtain m v where m: "KMeans_fit L n 42 data = Inr m"
    and v: "silhouette_score L data (KMeans_labels L m) = Inr v"
    and rest: "tune_loop L data ns (loc_set acc n v) = (Inr s, t)"
    by (auto simp: trained_clustering_model_def and_then_call_Inr)
  have new: "loc_set acc n v = acc @ [(n, v)]"
    using Cons.prems(3) by (intro loc_set_new) auto
  have "set ns \<inter> fst ` set (loc_set acc n v) = {}"
    using Cons.prems(2,3) unfolding new by auto
  from Cons.IH [OF rest _ this] Cons.prems(2) obtain f where t: "t = []"
    and f: "\<forall>k \<in> set ns. \<exists>m. KMeans_fit L k 42 data = Inr m
              \<and> silhouette_score L data (KMeans_labels L m) = Inr (f k)"
    and s: "s = loc_set acc n v @ map (\<lambda>k. (k, f k)) ns"
    by auto
  let ?g = "f(n := v)"
  have "n \<notin> set ns" using Cons.prems(2) by simp
  then have same: "map (\<lambda>k. (k, ?g k)) ns = map (\<lambda>k. (k, f k)) ns" by auto
  have "\<forall>k \<in> set (n # ns). \<exists>m. KMeans_fit L k 42 data = Inr m
              \<and> silhouette_score L data (KMeans_labels L m) = Inr (?g k)"
    using f m v \<open>n \<notin> set ns\<close> by auto
  moreover have "s = acc @ map (\<lambda>k. (k, ?g k)) (n # ns)"
    using s new same by simp
  ultimately show ?case using t by blast
qed

lemma idxmax_range:
  assumes "idxmax (map (\<lambda>n. (n, f n)) [a..<b]) = Inr k"
  shows "k \<in> {a..<b} \<and> (\<forall>n \<in> {a..<b}. f n \<le> f k) \<and> (\<forall>n \<in> {a..<k}. f n < f k)"
proof -
  let ?xs = "map (\<lambda>n. (n, f n)) [a..<b]"
  have ne: "?xs \<noteq> []"
  proof
    assume e: "?xs = []"
    from assms show False unfolding e by simp
  qed
  then obtain x xs where xs: "?xs = x # xs" by (cases ?xs) auto
  have len: "length ?xs = b - a" by simp
  have nth: "?xs ! j = (a + j, f (a + j))" if "j < b - a" for j using that by simp
  from foldl_first_max [of x xs] obtain i where i: "i < length (x # xs)"
    "foldl (\<lambda>best mw. if snd best < snd mw then mw else best) x xs = (x # xs) ! i"
    "\<forall>j<length (x # xs). snd ((x # xs) ! j) \<le> snd ((x # xs) ! i)"
    "\<forall>j<i. snd ((x # xs) ! j) < snd ((x # xs) ! i)" by blast
  from assms i(2) have k: "k = fst (?xs ! i)" unfolding xs by simp
  from i(1) have ib: "i < b - a" using len xs by simp
  with k nth have k': "k = a + i" by simp
  have i3: "\<forall>j<length ?xs. snd (?xs ! j) \<le> snd (?xs ! i)"
    using i(3) unfolding xs .
  have i4: "\<forall>j<i. snd (?xs ! j) < snd (?xs ! i)"
    using i(4) unfolding xs .
  have le: "f (a + j) \<le> f (a + i)" if "j < b - a" for j
  proof -
    from i3 that have "snd (?xs ! j) \<le> snd (?xs ! i)" unfolding len by blast
    then show ?thesis unfolding nth [OF that] nth [OF ib] snd_conv .
  qed
  have lt: "f (a + j) < f (a + i)" if "j < i" for j
  proof -
    from that ib have jb: "j < b - a" by simp
    from i4 that have "snd (?xs ! j) < snd (?xs ! i)" by blast
    then show ?thesis unfolding nth [OF jb] nth [OF ib] snd_conv .
  qed
  have "f n \<le> f k" if "n \<in> {a..<b}" for n
  proof -
    from that have "n - a < b - a" "a + (n - a) = n" by auto
    with le [of "n - a"] k' show ?thesis by simp
  qed
  moreover have "f n < f k" if "n \<in> {a..<k}" for n
  proof -
    from that k' have "n - a < i" "a + (n - a) = n" by auto
    with lt [of "n - a"] k' show ?thesis by simp
  qed
  ultimately show ?thesis using k' ib by auto
qed

lemma tune_Inr:
  assumes "tune_clustering_hyperparameter L data = (Inr k, t)"
  shows "t = [] \<and> (\<exists>f. (\<forall>n \<in> {2..<30}. \<exists>m. KMeans_fit L n 42 data = Inr m
              \<and> silhouette_score L data (KMeans_labels L m) = Inr (f n))
            \<and> k \<in> {2..<30} \<and> (\<forall>n \<in> {2..<30}. f n \<le> f k) \<and> (\<forall>n \<in> {2..<k}. f n < f k))"
proof -
  from assms obtain s t1 where loop: "tune_loop L data [2..<30] [] = (Inr s, t1)"
    and idx: "idxmax s = Inr k" and t: "t = t1"
    by (auto simp: tune_clustering_hyperparameter_def and_then_Inr call_Inr)
  from tune_loop_Inr [OF loop] obtain f where t1: "t1 = []"
    and f: "\<forall>n \<in> set [2..<30]. \<exists>m. KMeans_fit L n 42 data = Inr m
              \<and> silhouette_score L data (KMeans_labels L m) = Inr (f n)"
    and s: "s = map (\<lambda>n. (n, f n)) [2..<30]" by auto
  from f have f': "\<forall>n \<in> {2..<30}. \<exists>m. KMeans_fit L n 42 data = Inr m
              \<and> silhouette_score L data (KMeans_labels L m) = Inr (f n)"
    by (simp only: atLeastLessThan_upt)
  from idxmax_range [OF idx [unfolded s]] f' t t1 show ?thesis by blast
qed

text \<open>
  Claim C8. When \<open>evaluate_analyze_clustering\<close> returns, the data were scaled, every
  candidate \<open>n\<close> of \<open>range(2, 30)\<close> was clustered by K-Means on the scaled data with its
  average silhouette score \<open>f n\<close>, the tuned count \<open>k\<close> is a candidate whose score is
  maximal and the smallest such candidate, and the model that is trained afterwards
  and drawn (both subplots and the title carry \<open>k\<close> and the score \<open>f k\<close>) is K-Means
  with exactly \<open>k\<close> clusters on the scaled data.
\<close>

theorem clustering_uses_best_silhouette:
  assumes "evaluate_analyze_clustering L data label = (Inr u, t)"
  shows "\<exists>s data_scaled f k model cluster_labels samples pca_data.
      StandardScaler_fit L (rows data) = Inr s
    \<and> StandardScaler_transform L s (rows data) = Inr data_scaled
    \<and> (\<forall>n \<in> {2..<30}. \<exists>m. KMeans_fit L n 42 data_scaled = Inr m
          \<and> silhouette_score L data_scaled (KMeans_labels L m) = Inr (f n))
    \<and> tune_clustering_hyperparameter L data_scaled = (Inr k, [])
    \<and> k \<in> {2..<30} \<and> (\<forall>n \<in> {2..<30}. f n \<le> f k) \<and> (\<forall>n \<in> {2..<k}. f n < f k)
    \<and> trained_clustering_model L data_scaled k = (Inr model, [])
    \<and> KMeans_fit L k 42 data_scaled = Inr model
    \<and> KMeans_predict L model data_scaled = Inr cluster_labels
    \<and> t = [Silhouette_subplot k cluster_labels samples (f k),
           Scatter_subplot pca_data cluster_labels k,
           Show_clustering label k]"
proof -
  from assms obtain s data_scaled k t1 model score t2
    where s: "StandardScaler_fit L (rows data) = Inr s"
      and ds: "StandardScaler_transform L s (rows data) = Inr data_scaled"
      and tune: "tune_clustering_hyperparameter L data_scaled = (Inr k, t1)"
      and model: "KMeans_fit L k 42 data_scaled = Inr model"
      and score: "silhouette_score L data_scaled (KMeans_labels L model) = Inr score"
      and vis: "visualize_clustering L model data_scaled k score label = (Inr u, t2)"
      and t: "t = t1 @ t2"
    by (auto simp: evaluate_analyze_clustering_def and_then_Inr call_Inr fit_transform_def
        trained_clustering_model_def split: sum.splits)
  from tune_Inr [OF tune] obtain f where t1: "t1 = []"
    and f: "\<forall>n \<in> {2..<30}. \<exists>m. KMeans_fit L n 42 data_scaled = Inr m
              \<and> silhouette_score L data_scaled (KMeans_labels L m) = Inr (f n)"
    and k: "k \<in> {2..<30}" "\<forall>n \<in> {2..<30}. f n \<le> f k" "\<forall>n \<in> {2..<k}. f n < f k"
    by blast
  from f k(1) model score have fk: "score = f k" by force
  from vis obtain cluster_labels samples pca_data
    where cl: "KMeans_predict L model data_scaled = Inr cluster_labels"
      and t2: "t2 = [Silhouette_subplot k cluster_labels samples score,
           Scatter_subplot pca_data cluster_labels k, Show_clustering label k]"
    by (auto simp: visualize_clustering_def set_silhouette_subplot_def set_scatter_subplot_def
        and_then_Inr call_Inr emit_Inr)
  have tm: "trained_clustering_model L data_scaled k = (Inr model, [])"
    using model by (simp add: trained_clustering_model_def call_def)
  from s ds f tune k model cl t t1 t2 fk tm show ?thesis
    by (intro exI [of _ s] exI [of _ data_scaled] exI [of _ f] exI [of _ k] exI [of _ model]
        exI [of _ cluster_labels] exI [of _ samples] exI [of _ pca_data] conjI; simp)
qed

lemmas run_eval = and_then_eval call_def emit_def returns_def

lemma toy_clustering_run:
  "evaluate_analyze_clustering toy_library
      \<lparr>columns = [''a'', ''b''], rows = [[0, 2], [2, 4], [4, 0]]\<rparr> ''all''
   = (Inr (), [Silhouette_subplot 2 [0, 1, 0] [0, 0, 0] (1 / 2),
               Scatter_subplot [[-2, 0], [0, 2], [2, -2]] [0, 1, 0] 2,
               Show_clustering ''all'' 2])"
  by (simp add: evaluate_analyze_clustering_def tune_clustering_hyperparameter_def
      trained_clustering_model_def visualize_clustering_def set_silhouette_subplot_def
      set_scatter_subplot_def fit_transform_def toy_library_def toy_scaler_fit_def
      toy_scaler_transform_def toy_KMeans_fit_def toy_silhouette_score_def run_eval)

theorem clustering_uses_best_silhouette_witness:
  "evaluate_analyze_clustering toy_library
      \<lparr>columns = [''a'', ''b''], rows = [[0, 2], [2, 4], [4, 0]]\<rparr> ''all''
   = (Inr (), [Silhouette_subplot 2 [0, 1, 0] [0, 0, 0] (1 / 2),
               Scatter_subplot [[-2, 0], [0, 2], [2, -2]] [0, 1, 0] 2,
               Show_clustering ''all'' 2])
   \<and> (\<exists>s data_scaled f k model cluster_labels samples pca_data.
      StandardScaler_fit toy_library
        (rows \<lparr>columns = [''a'', ''b''], rows = [[0, 2], [2, 4], [4, 0]]\<rparr>) = Inr s
    \<and> StandardScaler_transform toy_library s
        (rows \<lparr>columns = [''a'', ''b''], rows = [[0, 2], [2, 4], [4, 0]]\<rparr>) = Inr data_scaled
    \<and> (\<forall>n \<in> {2..<30}. \<exists>m. KMeans_fit toy_library n 42 data_scaled = Inr m
          \<and> silhouette_score toy_library data_scaled (KMeans_labels toy_library m) = Inr (f n))
    \<and> tune_clustering_hyperparameter toy_library data_scaled = (Inr k, [])
    \<and> k \<in> {2..<30} \<and> (\<forall>n \<in> {2..<30}. f n \<le> f k) \<and> (\<forall>n \<in> {2..<k}. f n < f k)
    \<and> trained_clustering_model toy_library data_scaled k = (Inr model, [])
    \<and> KMeans_fit toy_library k 42 data_scaled = Inr model
    \<and> KMeans_predict toy_library model data_scaled = Inr cluster_labels
    \<and> [Silhouette_subplot 2 [0, 1, 0] [0, 0, 0] (1 / 2),
        Scatter_subplot [[-2, 0], [0, 2], [2, -2]] [0, 1, 0] 2,
        Show_clustering ''all'' 2]
        = [Silhouette_subplot k cluster_labels samples (f k),
           Scatter_subplot pca_data cluster_labels k,
           Show_clustering ''all'' k])"
  using toy_clustering_run clustering_uses_best_silhouette [OF toy_clustering_run]
  by (rule conjI)

section \<open>What a successful nearest-neighbour run has done\<close>

lemma predict_rows_Inr:
  assumes "predict_rows L knn Xs names k is = (Inr ps, t)"
  shows "(\<forall>i \<in> set is. i < length Xs)
    \<and> t = map (\<lambda>i. KNN_predict \<lparr>columns = names, rows = [Xs ! i]\<rparr> k) is
    \<and> list_all2 (\<lambda>i p. knn_predict L knn \<lparr>columns = names, rows = [Xs ! i]\<rparr> k = Inr p) is ps"
  using assms
proof (induction "is" arbitrary: ps t)
  case Nil
  then show ?case by (simp add: returns_Inr)
next
  case (Cons i "is")
  from Cons.prems obtain p ps' t' where i: "i < length Xs"
    and p: "knn_predict L knn \<lparr>columns = names, rows = [Xs ! i]\<rparr> k = Inr p"
    and rest: "predict_rows L knn Xs names k is = (Inr ps', t')"
    and ps: "ps = p # ps'"
    and t: "t = KNN_predict \<lparr>columns = names, rows = [Xs ! i]\<rparr> k # t'"
    by (auto simp: and_then_Inr call_Inr emit_Inr returns_Inr
        array_row_def pd_DataFrame_def split: if_splits)
  from Cons.IH [OF rest] i p ps t show ?case by simp
qed

lemma fit_transform_Inr:
  "fit_transform L scaler X = Inr (scaler', X_scaled) \<longleftrightarrow>
     (\<exists>s. StandardScaler_fit L X = Inr s \<and> StandardScaler_transform L s X = Inr X_scaled
          \<and> scaler' = Some s)"
  by (auto simp: fit_transform_def split: sum.splits)

lemma scale_fit_predict_Inr:
  assumes "scale_fit_predict L X_train y_train X_test k = (Inr y_pred, t)"
  shows "\<exists>s_train train_scaled s_test test_scaled knn.
      StandardScaler_fit L (rows X_train) = Inr s_train
    \<and> StandardScaler_transform L s_train (rows X_train) = Inr train_scaled
    \<and> StandardScaler_fit L (rows X_test) = Inr s_test
    \<and> StandardScaler_transform L s_test (rows X_test) = Inr test_scaled
    \<and> knn_fit L (knn_new L) \<lparr>columns = columns X_train, rows = train_scaled\<rparr> y_train = Inr knn
    \<and> length (rows X_test) \<le> length test_scaled
    \<and> length y_pred = length (rows X_test)
    \<and> (\<forall>i<length (rows X_test).
          knn_predict L knn \<lparr>columns = columns X_test, rows = [test_scaled ! i]\<rparr> k
            = Inr (y_pred ! i))
    \<and> t = KNN_fit \<lparr>columns = columns X_train, rows = train_scaled\<rparr> y_train
          # map (\<lambda>i. KNN_predict \<lparr>columns = columns X_test, rows = [test_scaled ! i]\<rparr> k)
              [0..<length (rows X_test)]"
proof -
  from assms obtain s_train train_scaled s_test test_scaled knn t'
    where a: "StandardScaler_fit L (rows X_train) = Inr s_train"
      "StandardScaler_transform L s_train (rows X_train) = Inr train_scaled"
      "StandardScaler_fit L (rows X_test) = Inr s_test"
      "StandardScaler_transform L s_test (rows X_test) = Inr test_scaled"
      "knn_fit L (knn_new L) \<lparr>columns = columns X_train, rows = train_scaled\<rparr> y_train = Inr knn"
    and rows: "predict_rows L knn test_scaled (columns X_test) k [0..<length (rows X_test)]
                 = (Inr y_pred, t')"
    and t: "t = KNN_fit \<lparr>columns = columns X_train, rows = train_scaled\<rparr> y_train # t'"
    unfolding scale_fit_predict_def
    by (auto simp: and_then_Inr call_Inr emit_Inr fit_transform_Inr pd_DataFrame_def
        split: if_splits)
  from predict_rows_Inr [OF rows]
  have b: "\<forall>i \<in> set [0..<length (rows X_test)]. i < length test_scaled"
    and t': "t' = map (\<lambda>i. KNN_predict \<lparr>columns = columns X_test, rows = [test_scaled ! i]\<rparr> k)
                   [0..<length (rows X_test)]"
    and all2: "list_all2 (\<lambda>i p. knn_predict L knn
                 \<lparr>columns = columns X_test, rows = [test_scaled ! i]\<rparr> k = Inr p)
               [0..<length (rows X_test)] y_pred"
    by blast+
  from all2 have len: "length y_pred = length (rows X_test)"
    by (simp add: list_all2_lengthD [symmetric])
  from all2 have each: "\<forall>i<length (rows X_test).
          knn_predict L knn \<lparr>columns = columns X_test, rows = [test_scaled ! i]\<rparr> k
            = Inr (y_pred ! i)"
    by (auto simp: list_all2_conv_all_nth)
  from b have le: "length (rows X_test) \<le> length test_scaled"
    by (cases "length (rows X_test)") (auto simp: not_less [symmetric])
  from a le len each t t' show ?thesis by blast
qed

lemma iloc_Inr:
  "iloc xs index = Inr ys \<longleftrightarrow> (\<forall>i \<in> set index. i < length xs) \<and> ys = map ((!) xs) index"
  by (auto simp: iloc_def)

lemma iloc_frame_Inr:
  "iloc_frame df index = Inr df' \<longleftrightarrow>
     (\<forall>i \<in> set index. i < length (rows df))
       \<and> df' = \<lparr>columns = columns df, rows = map ((!) (rows df)) index\<rparr>"
  by (auto simp: iloc_frame_def iloc_def split: sum.splits)

lemma cv_fold_Inr:
  assumes "cv_fold L X y k (train_index, test_index) = (Inr a, t)"
  shows "(\<forall>i \<in> set train_index \<union> set test_index. i < length (rows X) \<and> i < length y)
    \<and> (\<exists>y_pred.
         scale_fit_predict L \<lparr>columns = columns X, rows = map ((!) (rows X)) train_index\<rparr>
            (map ((!) y) train_index)
            \<lparr>columns = columns X, rows = map ((!) (rows X)) test_index\<rparr> k = (Inr y_pred, t)
       \<and> accuracy_score L (map ((!) y) test_index) y_pred = Inr a)"
  using assms unfolding cv_fold_def
  by (auto simp: and_then_Inr call_Inr iloc_Inr iloc_frame_Inr)

lemma cv_loop_Inr:
  assumes "cv_loop L X y k folds acc = (Inr accuracy, t)"
  shows "\<exists>runs. length runs = length folds
      \<and> (\<forall>i<length folds. cv_fold L X y k (folds ! i) = (Inr (fst (runs ! i)), snd (runs ! i)))
      \<and> accuracy = acc @ map fst runs \<and> t = concat (map snd runs)"
  using assms
proof (induction folds arbitrary: acc t)
  case Nil
  then show ?case by (simp add: returns_Inr)
next
  case (Cons part folds)
  from Cons.prems obtain a t1 t2 where part: "cv_fold L X y k part = (Inr a, t1)"
    and rest: "cv_loop L X y k folds (acc @ [a]) = (Inr accuracy, t2)" and t: "t = t1 @ t2"
    by (auto simp: and_then_Inr)
  from Cons.IH [OF rest] obtain runs where runs: "length runs = length folds"
    "\<forall>i<length folds. cv_fold L X y k (folds ! i) = (Inr (fst (runs ! i)), snd (runs ! i))"
    "accuracy = (acc @ [a]) @ map fst runs" "t2 = concat (map snd runs)" by blast
  let ?runs = "(a, t1) # runs"
  have "\<forall>i<length (part # folds).
          cv_fold L X y k ((part # folds) ! i) = (Inr (fst (?runs ! i)), snd (?runs ! i))"
    using part runs(2) by (auto simp: nth_Cons split: nat.splits)
  with runs t show ?case
    by (intro exI [of _ ?runs]) simp
qed

lemma k_fold_cv_knn_Inr:
  assumes "k_fold_cv_knn L X y k = (Inr mean_accuracy, t)"
  shows "\<exists>folds runs. KFold_split L 10 True 42 X y = Inr folds
      \<and> folds \<noteq> [] \<and> length runs = length folds
      \<and> (\<forall>i<length folds. cv_fold L X y k (folds ! i) = (Inr (fst (runs ! i)), snd (runs ! i)))
      \<and> mean_accuracy = sum_list (map fst runs) / real (length folds)
      \<and> t = concat (map snd runs)"
proof -
  from assms obtain folds accuracy where split: "KFold_split L 10 True 42 X y = Inr folds"
    and loop: "cv_loop L X y k folds [] = (Inr accuracy, t)"
    and mean: "accuracy \<noteq> []" "mean_accuracy = sum_list accuracy / real (length accuracy)"
    unfolding k_fold_cv_knn_def
    by (auto simp: and_then_Inr call_Inr returns_Inr split: if_splits)
  from cv_loop_Inr [OF loop] obtain runs where runs: "length runs = length folds"
    "\<forall>i<length folds. cv_fold L X y k (folds ! i) = (Inr (fst (runs ! i)), snd (runs ! i))"
    "accuracy = map fst runs" "t = concat (map snd runs)" by auto
  from mean runs have "folds \<noteq> []" by auto
  with split runs mean show ?thesis by (intro exI [of _ folds] exI [of _ runs]) simp
qed

lemma evaluate_analyze_knn_Inr:
  assumes "evaluate_analyze_knn L data label = (Inr u, t)"
  shows "\<exists>X y X_train X_test y_train y_test y_pred t_fit accuracy t_cv matrix report
            fpr tpr thresholds auc.
      drop_columns data [''dec''] = Inr X \<and> getitem data ''dec'' = Inr y
    \<and> train_test_split L X y (3 / 10) 42 = Inr (X_train, X_test, y_train, y_test)
    \<and> scale_fit_predict L X_train y_train X_test 5 = (Inr y_pred, t_fit)
    \<and> k_fold_cv_knn L X y 5 = (Inr accuracy, t_cv)
    \<and> confusion_matrix L y_test y_pred = Inr matrix
    \<and> classification_report L y_test y_pred = Inr report
    \<and> roc_curve L y_test y_pred = Inr (fpr, tpr, thresholds)
    \<and> roc_auc_score L y_test y_pred = Inr auc
    \<and> t = t_fit @ t_cv @
          [Print_accuracy label accuracy, Print_confusion_matrix label matrix,
           Print_classification_report label report, Call_roc_curve y_test y_pred,
           Plot_roc_curve label fpr tpr, Call_roc_auc_score y_test y_pred,
           Print_auc label auc]"
  using assms unfolding evaluate_analyze_knn_def Let_def confusion_matrix_knn_def
    visualize_roc_curve_knn_def
  by (auto simp: and_then_Inr call_Inr emit_Inr returns_Inr)

lemma cv_fold_run:
  assumes "cv_fold L X y k part = (Inr a, tr)"
  shows "\<exists>s_train train_scaled s_test test_scaled knn y_pred.
      StandardScaler_fit L (map ((!) (rows X)) (fst part)) = Inr s_train
    \<and> StandardScaler_transform L s_train (map ((!) (rows X)) (fst part)) = Inr train_scaled
    \<and> StandardScaler_fit L (map ((!) (rows X)) (snd part)) = Inr s_test
    \<and> StandardScaler_transform L s_test (map ((!) (rows X)) (snd part)) = Inr test_scaled
    \<and> knn_fit L (knn_new L) \<lparr>columns = columns X, rows = train_scaled\<rparr>
          (map ((!) y) (fst part)) = Inr knn
    \<and> length (snd part) \<le> length test_scaled
    \<and> length y_pred = length (snd part)
    \<and> (\<forall>j<length (snd part).
          knn_predict L knn \<lparr>columns = columns X, rows = [test_scaled ! j]\<rparr> k
            = Inr (y_pred ! j))
    \<and> tr = KNN_fit \<lparr>columns = columns X, rows = train_scaled\<rparr> (map ((!) y) (fst part))
          # map (\<lambda>j. KNN_predict \<lparr>columns = columns X, rows = [test_scaled ! j]\<rparr> k)
              [0..<length (snd part)]
    \<and> accuracy_score L (map ((!) y) (snd part)) y_pred = Inr a"
proof -
  obtain train_index test_index where part: "part = (train_index, test_index)"
    by (cases part)
  from cv_fold_Inr [OF assms [unfolded part]] obtain y_pred where
    run: "scale_fit_predict L \<lparr>columns = columns X, rows = map ((!) (rows X)) train_index\<rparr>
            (map ((!) y) train_index)
            \<lparr>columns = columns X, rows = map ((!) (rows X)) test_index\<rparr> k = (Inr y_pred, tr)"
    and acc: "accuracy_score L (map ((!) y) test_index) y_pred = Inr a"
    by blast
  from scale_fit_predict_Inr [OF run] acc show ?thesis
    unfolding part by simp blast
qed

text \<open>
  Claim C4. Let the library's \<^verbatim>\<open>KFold\<close> yield as many folds as it is asked for
  (\<open>yields_n_splits\<close>). When \<open>k_fold_cv_knn\<close> returns, the folds are the 10 of
  \<^verbatim>\<open>KFold(10, shuffle=True, random_state=42).split(X, y)\<close>. In each of them, the rows of
  \<open>X\<close> at the training indices are scaled and one new classifier is fitted, once, on the
  scaled training rows with the labels at the training indices; the rows of \<open>X\<close> at the
  test indices are scaled, and \<^verbatim>\<open>predict\<close> is called exactly once per test index \<open>j\<close>, in
  order, on row \<open>j\<close> of the scaled test rows and always with \<open>n_neighbors\<close>. Prediction \<open>j\<close>
  is what that call returned, so the predictions are as many as the test labels and
  aligned with them, and the fold's accuracy is \<^verbatim>\<open>accuracy_score\<close> of the labels at the
  test indices and these predictions. The trace of the run is the 10 folds' traces one
  after the other, and the result is the sum of the 10 accuracies divided by 10.
\<close>

theorem k_fold_cv_knn_mean_of_fold_accuracies:
  assumes "k_fold_cv_knn L X y n_neighbors = (Inr mean_accuracy, t)"
    and "yields_n_splits L"
  shows "\<exists>folds accuracy traces.
      KFold_split L 10 True 42 X y = Inr folds
    \<and> length folds = 10 \<and> length accuracy = 10 \<and> length traces = 10
    \<and> (\<forall>i<10. \<exists>s_train train_scaled s_test test_scaled knn y_pred.
          StandardScaler_fit L (map ((!) (rows X)) (fst (folds ! i))) = Inr s_train
        \<and> StandardScaler_transform L s_train (map ((!) (rows X)) (fst (folds ! i)))
            = Inr train_scaled
        \<and> StandardScaler_fit L (map ((!) (rows X)) (snd (folds ! i))) = Inr s_test
        \<and> StandardScaler_transform L s_test (map ((!) (rows X)) (snd (folds ! i)))
            = Inr test_scaled
        \<and> knn_fit L (knn_new L) \<lparr>columns = columns X, rows = train_scaled\<rparr>
              (map ((!) y) (fst (folds ! i))) = Inr knn
        \<and> length (snd (folds ! i)) \<le> length test_scaled
        \<and> length y_pred = length (snd (folds ! i))
        \<and> (\<forall>j<length (snd (folds ! i)).
              knn_predict L knn \<lparr>columns = columns X, rows = [test_scaled ! j]\<rparr> n_neighbors
                = Inr (y_pred ! j))
        \<and> traces ! i =
            KNN_fit \<lparr>columns = columns X, rows = train_scaled\<rparr> (map ((!) y) (fst (folds ! i)))
            # map (\<lambda>j. KNN_predict \<lparr>columns = columns X, rows = [test_scaled ! j]\<rparr>
                          n_neighbors)
                [0..<length (snd (folds ! i))]
        \<and> accuracy_score L (map ((!) y) (snd (folds ! i))) y_pred = Inr (accuracy ! i))
    \<and> t = concat traces
    \<and> mean_accuracy = sum_list accuracy / 10"
proof -
  from k_fold_cv_knn_Inr [OF assms(1)] obtain folds runs
    where split: "KFold_split L 10 True 42 X y = Inr folds"
      and len: "length runs = length folds"
      and each: "\<forall>i<length folds.
          cv_fold L X y n_neighbors (folds ! i) = (Inr (fst (runs ! i)), snd (runs ! i))"
      and mean: "mean_accuracy = sum_list (map fst runs) / real (length folds)"
      and t: "t = concat (map snd runs)" by blast
  from assms(2) split have ten: "length folds = 10"
    unfolding yields_n_splits_def by blast
  have fold: "\<exists>s_train train_scaled s_test test_scaled knn y_pred.
          StandardScaler_fit L (map ((!) (rows X)) (fst (folds ! i))) = Inr s_train
        \<and> StandardScaler_transform L s_train (map ((!) (rows X)) (fst (folds ! i)))
            = Inr train_scaled
        \<and> StandardScaler_fit L (map ((!) (rows X)) (snd (folds ! i))) = Inr s_test
        \<and> StandardScaler_transform L s_test (map ((!) (rows X)) (snd (folds ! i)))
            = Inr test_scaled
        \<and> knn_fit L (knn_new L) \<lparr>columns = columns X, rows = train_scaled\<rparr>
              (map ((!) y) (fst (folds ! i))) = Inr knn
        \<and> length (snd (folds ! i)) \<le> length test_scaled
        \<and> length y_pred = length (snd (folds ! i))
        \<and> (\<forall>j<length (snd (folds ! i)).
              knn_predict L knn \<lparr>columns = columns X, rows = [test_scaled ! j]\<rparr> n_neighbors
                = Inr (y_pred ! j))
        \<and> map snd runs ! i =
            KNN_fit \<lparr>columns = columns X, rows = train_scaled\<rparr> (map ((!) y) (fst (folds ! i)))
            # map (\<lambda>j. KNN_predict \<lparr>columns = columns X, rows = [test_scaled ! j]\<rparr>
                          n_neighbors)
                [0..<length (snd (folds ! i))]
        \<and> accuracy_score L (map ((!) y) (snd (folds ! i))) y_pred = Inr (map fst runs ! i)"
    if i: "i < 10" for i
  proof -
    from i ten have il: "i < length folds" by simp
    with each have
      "cv_fold L X y n_neighbors (folds ! i) = (Inr (fst (runs ! i)), snd (runs ! i))"
      by blast
    from cv_fold_run [OF this] il len show ?thesis by simp
  qed
  have a: "length (map fst runs) = 10" "length (map snd runs) = 10"
    using len ten by simp_all
  have m: "mean_accuracy = sum_list (map fst runs) / 10"
    using mean ten by simp
  show ?thesis
    apply (rule exI [of _ folds], rule exI [of _ "map fst runs"], rule exI [of _ "map snd runs"])
    apply (intro conjI allI impI)
          apply (rule split ten a t m)+
     apply (erule fold)
    apply (rule t m)+
    done
qed

lemmas toy_defs = toy_library_def toy_scaler_fit_def toy_scaler_transform_def
  toy_KFold_split_def toy_train_test_split_def toy_accuracy_score_def
  toy_confusion_matrix_def toy_roc_curve_def toy_knn_predict_def

lemmas knn_defs = fit_def predict_def k_nearest_def rank_neighbors_def candidates_def
  euclidean_distance_def majority_vote_def KNNClassifier_def

lemmas harness_defs = k_fold_cv_knn_def cv_fold_def scale_fit_predict_def fit_transform_def
  iloc_def iloc_frame_def pd_DataFrame_def array_row_def

lemma toy_cross_validation: "\<exists>t. k_fold_cv_knn toy_library toy_X toy_y 1 = (Inr 0, t)"
proof -
  have "fst (k_fold_cv_knn toy_library toy_X toy_y 1) = Inr 0"
    by (simp add: toy_X_def toy_y_def toy_defs knn_defs harness_defs run_eval Let_def)
  then show ?thesis by (metis prod.collapse)
qed

lemma toy_yields_n_splits: "yields_n_splits toy_library"
  unfolding yields_n_splits_def
  by (auto simp: toy_library_def toy_KFold_split_def Let_def split: if_splits)

theorem k_fold_cv_knn_mean_of_fold_accuracies_witness:
  "\<exists>t. k_fold_cv_knn toy_library toy_X toy_y 1 = (Inr 0, t)
     \<and> yields_n_splits toy_library
     \<and> (\<exists>folds accuracy traces.
      KFold_split toy_library 10 True 42 toy_X toy_y = Inr folds
    \<and> length folds = 10 \<and> length accuracy = 10 \<and> length traces = 10
    \<and> (\<forall>i<10. \<exists>s_train train_scaled s_test test_scaled knn y_pred.
          StandardScaler_fit toy_library (map ((!) (rows toy_X)) (fst (folds ! i)))
            = Inr s_train
        \<and> StandardScaler_transform toy_library s_train
              (map ((!) (rows toy_X)) (fst (folds ! i))) = Inr train_scaled
        \<and> StandardScaler_fit toy_library (map ((!) (rows toy_X)) (snd (folds ! i)))
            = Inr s_test
        \<and> StandardScaler_transform toy_library s_test
              (map ((!) (rows toy_X)) (snd (folds ! i))) = Inr test_scaled
        \<and> knn_fit toy_library (knn_new toy_library)
              \<lparr>columns = columns toy_X, rows = train_scaled\<rparr>
              (map ((!) toy_y) (fst (folds ! i))) = Inr knn
        \<and> length (snd (folds ! i)) \<le> length test_scaled
        \<and> length y_pred = length (snd (folds ! i))
        \<and> (\<forall>j<length (snd (folds ! i)).
              knn_predict toy_library knn
                \<lparr>columns = columns toy_X, rows = [test_scaled ! j]\<rparr> 1 = Inr (y_pred ! j))
        \<and> traces ! i =
            KNN_fit \<lparr>columns = columns toy_X, rows = train_scaled\<rparr>
              (map ((!) toy_y) (fst (folds ! i)))
            # map (\<lambda>j. KNN_predict \<lparr>columns = columns toy_X, rows = [test_scaled ! j]\<rparr> 1)
                [0..<length (snd (folds ! i))]
        \<and> accuracy_score toy_library (map ((!) toy_y) (snd (folds ! i))) y_pred
            = Inr (accuracy ! i))
    \<and> t = concat traces
    \<and> (0 :: real) = sum_list accuracy / 10)"
proof -
  from toy_cross_validation obtain t
    where run: "k_fold_cv_knn toy_library toy_X toy_y 1 = (Inr 0, t)" ..
  from run toy_yields_n_splits k_fold_cv_knn_mean_of_fold_accuracies [OF run toy_yields_n_splits]
  show ?thesis
    by (intro exI [of _ t] conjI)
qed







lemmas analysis_defs = evaluate_analyze_knn_def confusion_matrix_knn_def
  visualize_roc_curve_knn_def drop_columns_def getitem_def

lemma toy_analysis: "\<exists>t. evaluate_analyze_knn toy_library toy_data ''all'' = (Inr (), t)"
proof -
  have "fst (evaluate_analyze_knn toy_library toy_data ''all'') = Inr ()"
    by (simp add: toy_data_def toy_defs knn_defs harness_defs analysis_defs run_eval Let_def)
  then show ?thesis by (metis prod.collapse)
qed


text \<open>
  Claim C9. In every fold of \<open>k_fold_cv_knn\<close> and in the holdout run of
  \<open>evaluate_analyze_knn\<close>, the scaler is fitted a second time, on the test partition,
  and the queries passed to \<^verbatim>\<open>predict\<close> are the rows of the test partition
  transformed with that second state \<open>s_test\<close>, while the table passed to \<^verbatim>\<open>fit\<close> is
  the training partition transformed with the state \<open>s_train\<close> fitted on the training
  partition. So training rows and queries are normalised with the statistics of their
  own partition each, which differ whenever \<open>s_train\<close> and \<open>s_test\<close> do.
\<close>

theorem test_rows_scaled_by_own_statistics:
  "(k_fold_cv_knn L X y n_neighbors = (Inr r, t) \<longrightarrow>
      (\<exists>folds traces.
          KFold_split L 10 True 42 X y = Inr folds
        \<and> length traces = length folds \<and> t = concat traces
        \<and> (\<forall>i<length folds. \<exists>s_train train_scaled s_test test_scaled.
              StandardScaler_fit L (map ((!) (rows X)) (fst (folds ! i))) = Inr s_train
            \<and> StandardScaler_transform L s_train (map ((!) (rows X)) (fst (folds ! i)))
                = Inr train_scaled
            \<and> StandardScaler_fit L (map ((!) (rows X)) (snd (folds ! i))) = Inr s_test
            \<and> StandardScaler_transform L s_test (map ((!) (rows X)) (snd (folds ! i)))
                = Inr test_scaled
            \<and> traces ! i =
                KNN_fit \<lparr>columns = columns X, rows = train_scaled\<rparr>
                  (map ((!) y) (fst (folds ! i)))
                # map (\<lambda>j. KNN_predict \<lparr>columns = columns X, rows = [test_scaled ! j]\<rparr>
                              n_neighbors)
                    [0..<length (snd (folds ! i))])))
   \<and> (evaluate_analyze_knn L data label = (Inr u, t') \<longrightarrow>
      (\<exists>X' y' X_train X_test y_train y_test s_train train_scaled s_test test_scaled rest.
          drop_columns data [''dec''] = Inr X' \<and> getitem data ''dec'' = Inr y'
        \<and> train_test_split L X' y' (3 / 10) 42 = Inr (X_train, X_test, y_train, y_test)
        \<and> StandardScaler_fit L (rows X_train) = Inr s_train
        \<and> StandardScaler_transform L s_train (rows X_train) = Inr train_scaled
        \<and> StandardScaler_fit L (rows X_test) = Inr s_test
        \<and> StandardScaler_transform L s_test (rows X_test) = Inr test_scaled
        \<and> t' = KNN_fit \<lparr>columns = columns X_train, rows = train_scaled\<rparr> y_train
               # map (\<lambda>j. KNN_predict \<lparr>columns = columns X_test, rows = [test_scaled ! j]\<rparr> 5)
                   [0..<length (rows X_test)]
               @ rest))"
proof (intro conjI impI)
  assume run: "k_fold_cv_knn L X y n_neighbors = (Inr r, t)"
  from k_fold_cv_knn_Inr [OF run] obtain folds runs
    where split: "KFold_split L 10 True 42 X y = Inr folds"
      and len: "length runs = length folds"
      and each: "\<forall>i<length folds.
          cv_fold L X y n_neighbors (folds ! i) = (Inr (fst (runs ! i)), snd (runs ! i))"
      and t: "t = concat (map snd runs)" by blast
  have "\<exists>s_train train_scaled s_test test_scaled.
              StandardScaler_fit L (map ((!) (rows X)) (fst (folds ! i))) = Inr s_train
            \<and> StandardScaler_transform L s_train (map ((!) (rows X)) (fst (folds ! i)))
                = Inr train_scaled
            \<and> StandardScaler_fit L (map ((!) (rows X)) (snd (folds ! i))) = Inr s_test
            \<and> StandardScaler_transform L s_test (map ((!) (rows X)) (snd (folds ! i)))
                = Inr test_scaled
            \<and> map snd runs ! i =
                KNN_fit \<lparr>columns = columns X, rows = train_scaled\<rparr>
                  (map ((!) y) (fst (folds ! i)))
                # map (\<lambda>j. KNN_predict \<lparr>columns = columns X, rows = [test_scaled ! j]\<rparr>
                              n_neighbors)
                    [0..<length (snd (folds ! i))]"
    if i: "i < length folds" for i
  proof -
    from each i have "cv_fold L X y n_neighbors (folds ! i) = (Inr (fst (runs ! i)), snd (runs ! i))"
      by blast
    from cv_fold_run [OF this] i len show ?thesis by simp blast
  qed
  with split len t show "\<exists>folds traces.
          KFold_split L 10 True 42 X y = Inr folds
        \<and> length traces = length folds \<and> t = concat traces
        \<and> (\<forall>i<length folds. \<exists>s_train train_scaled s_test test_scaled.
              StandardScaler_fit L (map ((!) (rows X)) (fst (folds ! i))) = Inr s_train
            \<and> StandardScaler_transform L s_train (map ((!) (rows X)) (fst (folds ! i)))
                = Inr train_scaled
            \<and> StandardScaler_fit L (map ((!) (rows X)) (snd (folds ! i))) = Inr s_test
            \<and> StandardScaler_transform L s_test (map ((!) (rows X)) (snd (folds ! i)))
                = Inr test_scaled
            \<and> traces ! i =
                KNN_fit \<lparr>columns = columns X, rows = train_scaled\<rparr>
                  (map ((!) y) (fst (folds ! i)))
                # map (\<lambda>j. KNN_predict \<lparr>columns = columns X, rows = [test_scaled ! j]\<rparr>
                              n_neighbors)
                    [0..<length (snd (folds ! i))])"
    by (intro exI [of _ folds] exI [of _ "map snd runs"]) simp
next
  assume run: "evaluate_analyze_knn L data label = (Inr u, t')"
  from evaluate_analyze_knn_Inr [OF run] obtain X' y' X_train X_test y_train y_test y_pred
    t_fit rest where
    a: "drop_columns data [''dec''] = Inr X'" "getitem data ''dec'' = Inr y'"
      "train_test_split L X' y' (3 / 10) 42 = Inr (X_train, X_test, y_train, y_test)"
      "scale_fit_predict L X_train y_train X_test 5 = (Inr y_pred, t_fit)"
    and t: "t' = t_fit @ rest"
    by (elim exE conjE) (rule that, assumption, assumption, assumption, assumption, simp)
  from scale_fit_predict_Inr [OF a(4)] a(1-3) t
  show "\<exists>X' y' X_train X_test y_train y_test s_train train_scaled s_test test_scaled rest.
          drop_columns data [''dec''] = Inr X' \<and> getitem data ''dec'' = Inr y'
        \<and> train_test_split L X' y' (3 / 10) 42 = Inr (X_train, X_test, y_train, y_test)
        \<and> StandardScaler_fit L (rows X_train) = Inr s_train
        \<and> StandardScaler_transform L s_train (rows X_train) = Inr train_scaled
        \<and> StandardScaler_fit L (rows X_test) = Inr s_test
        \<and> StandardScaler_transform L s_test (rows X_test) = Inr test_scaled
        \<and> t' = KNN_fit \<lparr>columns = columns X_train, rows = train_scaled\<rparr> y_train
               # map (\<lambda>j. KNN_predict \<lparr>columns = columns X_test, rows = [test_scaled ! j]\<rparr> 5)
                   [0..<length (rows X_test)]
               @ rest"
    by (elim exE conjE) (intro exI conjI, assumption+, simp)
qed


theorem test_rows_scaled_by_own_statistics_witness:
  "\<exists>t t'. k_fold_cv_knn toy_library toy_X toy_y 1 = (Inr 0, t)
    \<and> evaluate_analyze_knn toy_library toy_data ''all'' = (Inr (), t')
    \<and> (\<exists>folds traces.
          KFold_split toy_library 10 True 42 toy_X toy_y = Inr folds
        \<and> length traces = length folds \<and> t = concat traces
        \<and> (\<forall>i<length folds. \<exists>s_train train_scaled s_test test_scaled.
              StandardScaler_fit toy_library (map ((!) (rows toy_X)) (fst (folds ! i)))
                = Inr s_train
            \<and> StandardScaler_transform toy_library s_train
                  (map ((!) (rows toy_X)) (fst (folds ! i))) = Inr train_scaled
            \<and> StandardScaler_fit toy_library (map ((!) (rows toy_X)) (snd (folds ! i)))
                = Inr s_test
            \<and> StandardScaler_transform toy_library s_test
                  (map ((!) (rows toy_X)) (snd (folds ! i))) = Inr test_scaled
            \<and> traces ! i =
                KNN_fit \<lparr>columns = columns toy_X, rows = train_scaled\<rparr>
                  (map ((!) toy_y) (fst (folds ! i)))
                # map (\<lambda>j. KNN_predict \<lparr>columns = columns toy_X, rows = [test_scaled ! j]\<rparr> 1)
                    [0..<length (snd (folds ! i))]))
    \<and> (\<exists>X' y' X_train X_test y_train y_test s_train train_scaled s_test test_scaled rest.
          drop_columns toy_data [''dec''] = Inr X' \<and> getitem toy_data ''dec'' = Inr y'
        \<and> train_test_split toy_library X' y' (3 / 10) 42
            = Inr (X_train, X_test, y_train, y_test)
        \<and> StandardScaler_fit toy_library (rows X_train) = Inr s_train
        \<and> StandardScaler_transform toy_library s_train (rows X_train) = Inr train_scaled
        \<and> StandardScaler_fit toy_library (rows X_test) = Inr s_test
        \<and> StandardScaler_transform toy_library s_test (rows X_test) = Inr test_scaled
        \<and> t' = KNN_fit \<lparr>columns = columns X_train, rows = train_scaled\<rparr> y_train
               # map (\<lambda>j. KNN_predict \<lparr>columns = columns X_test, rows = [test_scaled ! j]\<rparr> 5)
                   [0..<length (rows X_test)]
               @ rest)
    \<and> StandardScaler_fit toy_library [[0], [1], [2]] = Inr [1]
    \<and> StandardScaler_fit toy_library [[3], [4], [10], [11], [12], [13], [14]] = Inr [67 / 7]"
proof -
  from toy_cross_validation obtain t
    where cv: "k_fold_cv_knn toy_library toy_X toy_y 1 = (Inr 0, t)" ..
  from toy_analysis obtain t'
    where an: "evaluate_analyze_knn toy_library toy_data ''all'' = (Inr (), t')" ..
  note both = test_rows_scaled_by_own_statistics
    [of toy_library toy_X toy_y 1 0 t toy_data "''all''" "()" t']
  have stats: "StandardScaler_fit toy_library [[0], [1], [2]] = Inr [1]"
    "StandardScaler_fit toy_library [[3], [4], [10], [11], [12], [13], [14]] = Inr [67 / 7]"
    by (simp_all add: toy_library_def toy_scaler_fit_def)
  from cv an both [THEN conjunct1, THEN mp, OF cv] both [THEN conjunct2, THEN mp, OF an] stats
  show ?thesis
    by (intro exI [of _ t] exI [of _ t'] conjI)
qed

text \<open>
  Claim C6. When \<open>evaluate_analyze_knn\<close> returns, \<^verbatim>\<open>roc_curve\<close> and \<^verbatim>\<open>roc_auc_score\<close> are
  each called once, both with the test labels of the split and, as scores, the list
  \<open>y_pred\<close> whose entries are the labels that \<^verbatim>\<open>knn.predict\<close> returned for the queries
  of the holdout run, unchanged. Everything in the trace before the reports is a call
  of \<^verbatim>\<open>fit\<close> or \<^verbatim>\<open>predict\<close> of the classifier: no other method of it is called, so
  no probability or confidence is asked for.
\<close>

theorem roc_and_auc_get_predicted_labels:
  assumes "evaluate_analyze_knn L data label = (Inr u, t)"
  shows "\<exists>X y X_train X_test y_train y_test train_frame knn queries y_pred calls
           accuracy matrix report fpr tpr thresholds auc.
      drop_columns data [''dec''] = Inr X \<and> getitem data ''dec'' = Inr y
    \<and> train_test_split L X y (3 / 10) 42 = Inr (X_train, X_test, y_train, y_test)
    \<and> knn_fit L (knn_new L) train_frame y_train = Inr knn
    \<and> length queries = length (rows X_test) \<and> length y_pred = length (rows X_test)
    \<and> (\<forall>j<length queries. knn_predict L knn (queries ! j) 5 = Inr (y_pred ! j))
    \<and> roc_curve L y_test y_pred = Inr (fpr, tpr, thresholds)
    \<and> roc_auc_score L y_test y_pred = Inr auc
    \<and> t = (KNN_fit train_frame y_train # map (\<lambda>q. KNN_predict q 5) queries) @ calls @
          [Print_accuracy label accuracy, Print_confusion_matrix label matrix,
           Print_classification_report label report, Call_roc_curve y_test y_pred,
           Plot_roc_curve label fpr tpr, Call_roc_auc_score y_test y_pred,
           Print_auc label auc]
    \<and> (\<forall>ev \<in> set calls. (\<exists>frame ys. ev = KNN_fit frame ys) \<or> (\<exists>q k. ev = KNN_predict q k))"
proof -
  from evaluate_analyze_knn_Inr [OF assms] obtain X y X_train X_test y_train y_test y_pred
    t_fit accuracy t_cv matrix report fpr tpr thresholds auc where
    a: "drop_columns data [''dec''] = Inr X" "getitem data ''dec'' = Inr y"
      "train_test_split L X y (3 / 10) 42 = Inr (X_train, X_test, y_train, y_test)"
    and run: "scale_fit_predict L X_train y_train X_test 5 = (Inr y_pred, t_fit)"
    and cv: "k_fold_cv_knn L X y 5 = (Inr accuracy, t_cv)"
    and b: "roc_curve L y_test y_pred = Inr (fpr, tpr, thresholds)"
      "roc_auc_score L y_test y_pred = Inr auc"
    and t: "t = t_fit @ t_cv @
          [Print_accuracy label accuracy, Print_confusion_matrix label matrix,
           Print_classification_report label report, Call_roc_curve y_test y_pred,
           Plot_roc_curve label fpr tpr, Call_roc_auc_score y_test y_pred,
           Print_auc label auc]"
    by blast
  from scale_fit_predict_Inr [OF run] obtain train_scaled test_scaled knn where
    c: "knn_fit L (knn_new L) \<lparr>columns = columns X_train, rows = train_scaled\<rparr> y_train = Inr knn"
      "length y_pred = length (rows X_test)"
      "\<forall>i<length (rows X_test).
          knn_predict L knn \<lparr>columns = columns X_test, rows = [test_scaled ! i]\<rparr> 5
            = Inr (y_pred ! i)"
      "t_fit = KNN_fit \<lparr>columns = columns X_train, rows = train_scaled\<rparr> y_train
          # map (\<lambda>i. KNN_predict \<lparr>columns = columns X_test, rows = [test_scaled ! i]\<rparr> 5)
              [0..<length (rows X_test)]"
    by blast
  let ?queries = "map (\<lambda>i. \<lparr>columns = columns X_test, rows = [test_scaled ! i]\<rparr>)
                    [0..<length (rows X_test)]"
  have calls: "\<forall>ev \<in> set t_cv. (\<exists>frame ys. ev = KNN_fit frame ys) \<or> (\<exists>q k. ev = KNN_predict q k)"
  proof -
    from k_fold_cv_knn_Inr [OF cv] obtain folds runs where len: "length runs = length folds"
      and each: "\<forall>i<length folds.
          cv_fold L X y 5 (folds ! i) = (Inr (fst (runs ! i)), snd (runs ! i))"
      and tcv: "t_cv = concat (map snd runs)" by blast
    show ?thesis
    proof
      fix ev assume "ev \<in> set t_cv"
      then obtain tr where tr: "tr \<in> set (map snd runs)" "ev \<in> set tr"
        unfolding tcv by auto
      from tr(1) obtain i where "i < length (map snd runs)" "tr = map snd runs ! i"
        unfolding in_set_conv_nth by blast
      with tr(2) have i: "i < length runs" "ev \<in> set (snd (runs ! i))" by simp_all
      with each len have "cv_fold L X y 5 (folds ! i) = (Inr (fst (runs ! i)), snd (runs ! i))"
        by simp
      from cv_fold_run [OF this] obtain train_scaled' test_scaled' where
        "snd (runs ! i) =
           KNN_fit \<lparr>columns = columns X, rows = train_scaled'\<rparr> (map ((!) y) (fst (folds ! i)))
          # map (\<lambda>j. KNN_predict \<lparr>columns = columns X, rows = [test_scaled' ! j]\<rparr> 5)
              [0..<length (snd (folds ! i))]"
        by blast
      with i(2)
      show "(\<exists>frame ys. ev = KNN_fit frame ys) \<or> (\<exists>q k. ev = KNN_predict q k)" by auto
    qed
  qed
  have q1: "length ?queries = length (rows X_test)" by simp
  have q2: "\<forall>j<length ?queries. knn_predict L knn (?queries ! j) 5 = Inr (y_pred ! j)"
    using c(3) by simp
  have t2: "t = (KNN_fit \<lparr>columns = columns X_train, rows = train_scaled\<rparr> y_train
          # map (\<lambda>q. KNN_predict q 5) ?queries) @ t_cv @
          [Print_accuracy label accuracy, Print_confusion_matrix label matrix,
           Print_classification_report label report, Call_roc_curve y_test y_pred,
           Plot_roc_curve label fpr tpr, Call_roc_auc_score y_test y_pred,
           Print_auc label auc]"
    unfolding t c(4) by (simp add: comp_def)
  show ?thesis
    apply (rule exI [of _ X], rule exI [of _ y], rule exI [of _ X_train])
    apply (rule exI [of _ X_test], rule exI [of _ y_train], rule exI [of _ y_test])
    apply (rule exI [of _ "\<lparr>columns = columns X_train, rows = train_scaled\<rparr>"])
    apply (rule exI [of _ knn], rule exI [of _ ?queries], rule exI [of _ y_pred])
    apply (rule exI [of _ t_cv], rule exI [of _ accuracy], rule exI [of _ matrix])
    apply (rule exI [of _ report], rule exI [of _ fpr], rule exI [of _ tpr])
    apply (rule exI [of _ thresholds], rule exI [of _ auc])
    apply (intro conjI)
              apply (rule a b c(1) c(2) q1 q2 t2 calls)+
    done
qed



theorem roc_and_auc_get_predicted_labels_witness:
  "\<exists>t. evaluate_analyze_knn toy_library toy_data ''all'' = (Inr (), t)
   \<and> (\<exists>X y X_train X_test y_train y_test train_frame knn queries y_pred calls
           accuracy matrix report fpr tpr thresholds auc.
      drop_columns toy_data [''dec''] = Inr X \<and> getitem toy_data ''dec'' = Inr y
    \<and> train_test_split toy_library X y (3 / 10) 42 = Inr (X_train, X_test, y_train, y_test)
    \<and> knn_fit toy_library (knn_new toy_library) train_frame y_train = Inr knn
    \<and> length queries = length (rows X_test) \<and> length y_pred = length (rows X_test)
    \<and> (\<forall>j<length queries. knn_predict toy_library knn (queries ! j) 5 = Inr (y_pred ! j))
    \<and> roc_curve toy_library y_test y_pred = Inr (fpr, tpr, thresholds)
    \<and> roc_auc_score toy_library y_test y_pred = Inr auc
    \<and> t = (KNN_fit train_frame y_train # map (\<lambda>q. KNN_predict q 5) queries) @ calls @
          [Print_accuracy ''all'' accuracy, Print_confusion_matrix ''all'' matrix,
           Print_classification_report ''all'' report, Call_roc_curve y_test y_pred,
           Plot_roc_curve ''all'' fpr tpr, Call_roc_auc_score y_test y_pred,
           Print_auc ''all'' auc]
    \<and> (\<forall>ev \<in> set calls. (\<exists>frame ys. ev = KNN_fit frame ys) \<or> (\<exists>q k. ev = KNN_predict q k)))"
proof -
  from toy_analysis obtain t
    where run: "evaluate_analyze_knn toy_library toy_data ''all'' = (Inr (), t)" ..
  from run roc_and_auc_get_predicted_labels [OF run] show ?thesis
    by (intro exI [of _ t] conjI)
qed

section \<open>Two runs with the same seeds\<close>








end
